theory Spec2Isabelle
  imports Complex_Main "HOL-Library.AList"
begin

section \<open>Python values\<close>

text \<open>
  The agent passes dictionaries of dynamically typed values between its components.
  A value is \<open>None\<close>, a bool, an int, a finite float (given by the real number it
  denotes), a str, a list, or a dict with str keys kept in insertion order. A str is a
  list of characters with code points below 256. Tuples, sets, NaN, infinities and
  dictionaries with other keys are outside the model.
\<close>

datatype pyval =
    PNone
  | PBool bool
  | PInt int
  | PFloat real
  | PStr string
  | PList "pyval list"
  | PDict "(string \<times> pyval) list"

type_synonym pydict = "(string \<times> pyval) list"

text \<open>An exception is its class name and its message (\<open>str(e)\<close>).\<close>

datatype pyexn = PyExc string string

fun exc_class :: "pyexn \<Rightarrow> string" where
  "exc_class (PyExc c m) = c"

fun exc_str :: "pyexn \<Rightarrow> string" where
  "exc_str (PyExc c m) = m"

definition MCPClientError :: "string \<Rightarrow> pyexn" where
  "MCPClientError m = PyExc ''MCPClientError'' m"

definition AttributeError :: "string \<Rightarrow> pyexn" where
  "AttributeError m = PyExc ''AttributeError'' m"

definition TypeError :: "string \<Rightarrow> pyexn" where
  "TypeError m = PyExc ''TypeError'' m"

definition ValueError :: "string \<Rightarrow> pyexn" where
  "ValueError m = PyExc ''ValueError'' m"

fun type_name :: "pyval \<Rightarrow> string" where
  "type_name PNone = ''NoneType''"
| "type_name (PBool b) = ''bool''"
| "type_name (PInt n) = ''int''"
| "type_name (PFloat r) = ''float''"
| "type_name (PStr s) = ''str''"
| "type_name (PList xs) = ''list''"
| "type_name (PDict d) = ''dict''"

definition no_attribute :: "pyval \<Rightarrow> string \<Rightarrow> pyexn" where
  "no_attribute v a =
     AttributeError ([CHR 0x27] @ type_name v @ [CHR 0x27] @ '' object has no attribute ''
       @ [CHR 0x27] @ a @ [CHR 0x27])"

definition not_iterable :: "pyval \<Rightarrow> pyexn" where
  "not_iterable v =
     TypeError ([CHR 0x27] @ type_name v @ [CHR 0x27] @ '' object is not iterable'')"

text \<open>Truth value testing, \<open>if v:\<close>.\<close>

fun truthy :: "pyval \<Rightarrow> bool" where
  "truthy PNone = False"
| "truthy (PBool b) = b"
| "truthy (PInt n) = (n \<noteq> 0)"
| "truthy (PFloat r) = (r \<noteq> 0)"
| "truthy (PStr s) = (s \<noteq> [])"
| "truthy (PList xs) = (xs \<noteq> [])"
| "truthy (PDict d) = (d \<noteq> [])"

text \<open>\<open>d.get(k, default)\<close> on a dictionary, and on a value of any type.\<close>

definition dict_get :: "pydict \<Rightarrow> string \<Rightarrow> pyval \<Rightarrow> pyval" where
  "dict_get d k dflt = (case map_of d k of Some v \<Rightarrow> v | None \<Rightarrow> dflt)"

fun py_get :: "pyval \<Rightarrow> string \<Rightarrow> pyval \<Rightarrow> pyexn + pyval" where
  "py_get (PDict d) k dflt = Inr (dict_get d k dflt)"
| "py_get v k dflt = Inl (no_attribute v ''get'')"

text \<open>\<open>list(d.keys())\<close>.\<close>

definition dict_keys :: "pydict \<Rightarrow> pyval" where
  "dict_keys d = PList (map (\<lambda>kv. PStr (fst kv)) d)"

text \<open>
  \<open>d[k] = v\<close> keeps the position of a key that is present and appends a new one;
  \<open>d.update(m)\<close> stores the items of \<open>m\<close> in their order.
\<close>

definition dict_set :: "pydict \<Rightarrow> string \<Rightarrow> pyval \<Rightarrow> pydict" where
  "dict_set d k v = AList.update k v d"

fun dict_update :: "pydict \<Rightarrow> pydict \<Rightarrow> pydict" where
  "dict_update d [] = d"
| "dict_update d (kv # m) = dict_update (dict_set d (fst kv) (snd kv)) m"

text \<open>\<open>len(v)\<close>.\<close>

fun py_len :: "pyval \<Rightarrow> pyexn + pyval" where
  "py_len (PStr s) = Inr (PInt (int (length s)))"
| "py_len (PList xs) = Inr (PInt (int (length xs)))"
| "py_len (PDict d) = Inr (PInt (int (length d)))"
| "py_len v = Inl (TypeError (''object of type '' @ [CHR 0x27] @ type_name v @ [CHR 0x27]
     @ '' has no len()''))"

text \<open>The items a \<open>for\<close> loop visits.\<close>

fun py_iter :: "pyval \<Rightarrow> pyexn + pyval list" where
  "py_iter (PList xs) = Inr xs"
| "py_iter (PStr s) = Inr (map (\<lambda>c. PStr [c]) s)"
| "py_iter (PDict d) = Inr (map (\<lambda>kv. PStr (fst kv)) d)"
| "py_iter v = Inl (not_iterable v)"

subsection \<open>Comparison\<close>

text \<open>The number a bool, an int or a float denotes.\<close>

fun py_num :: "pyval \<Rightarrow> real option" where
  "py_num (PBool b) = Some (if b then 1 else 0)"
| "py_num (PInt n) = Some (real_of_int n)"
| "py_num (PFloat r) = Some r"
| "py_num v = None"

text \<open>
  \<open>a == b\<close>: numbers by value, strings and lists by content, dictionaries by their
  items whatever the order, values of different kinds are unequal.
\<close>

fun py_eq :: "pyval \<Rightarrow> pyval \<Rightarrow> bool"
  and py_eq_list :: "pyval list \<Rightarrow> pyval list \<Rightarrow> bool"
  and py_eq_item :: "string \<Rightarrow> pyval \<Rightarrow> pydict \<Rightarrow> bool"
  and py_eq_items :: "pydict \<Rightarrow> pydict \<Rightarrow> bool" where
  "py_eq PNone b = (b = PNone)"
| "py_eq (PBool x) b = (py_num b = Some (if x then 1 else 0))"
| "py_eq (PInt x) b = (py_num b = Some (real_of_int x))"
| "py_eq (PFloat x) b = (py_num b = Some x)"
| "py_eq (PStr x) b = (b = PStr x)"
| "py_eq (PList xs) b = (case b of PList ys \<Rightarrow> py_eq_list xs ys | _ \<Rightarrow> False)"
| "py_eq (PDict d) b =
     (case b of PDict e \<Rightarrow> length d = length e \<and> py_eq_items d e | _ \<Rightarrow> False)"
| "py_eq_list [] ys = (ys = [])"
| "py_eq_list (x # xs) ys =
     (case ys of [] \<Rightarrow> False | y # ys' \<Rightarrow> py_eq x y \<and> py_eq_list xs ys')"
| "py_eq_item k v [] = False"
| "py_eq_item k v (kw # e) = (if fst kw = k then py_eq v (snd kw) else py_eq_item k v e)"
| "py_eq_items [] e = True"
| "py_eq_items (kv # d) e = (py_eq_item (fst kv) (snd kv) e \<and> py_eq_items d e)"

text \<open>
  \<open>a < b\<close> and \<open>a > b\<close>: numbers by value, strings by code point, lists by the
  first pair of unequal items; any other pair of operands raises \<open>TypeError\<close>.
\<close>

datatype cmpop = Lt | Gt

fun cmp_symbol :: "cmpop \<Rightarrow> string" where
  "cmp_symbol Lt = ''<''"
| "cmp_symbol Gt = ''>''"

fun str_less :: "string \<Rightarrow> string \<Rightarrow> bool" where
  "str_less [] [] = False"
| "str_less [] (y # ys) = True"
| "str_less (x # xs) [] = False"
| "str_less (x # xs) (y # ys) =
     (if x = y then str_less xs ys else (of_char x :: nat) < of_char y)"

definition not_supported :: "cmpop \<Rightarrow> pyval \<Rightarrow> pyval \<Rightarrow> pyexn" where
  "not_supported c a b =
     TypeError ([CHR 0x27] @ cmp_symbol c @ [CHR 0x27]
       @ '' not supported between instances of '' @ [CHR 0x27] @ type_name a @ [CHR 0x27]
       @ '' and '' @ [CHR 0x27] @ type_name b @ [CHR 0x27])"

definition num_cmp :: "cmpop \<Rightarrow> pyval \<Rightarrow> pyval \<Rightarrow> pyexn + bool" where
  "num_cmp c a b =
     (case py_num a of
        None \<Rightarrow> Inl (not_supported c a b)
      | Some x \<Rightarrow>
          (case py_num b of
             None \<Rightarrow> Inl (not_supported c a b)
           | Some y \<Rightarrow> Inr (case c of Lt \<Rightarrow> x < y | Gt \<Rightarrow> y < x)))"

fun py_cmp :: "cmpop \<Rightarrow> pyval \<Rightarrow> pyval \<Rightarrow> pyexn + bool"
  and py_cmp_list :: "cmpop \<Rightarrow> pyval list \<Rightarrow> pyval list \<Rightarrow> pyexn + bool" where
  "py_cmp c (PList xs) (PList ys) = py_cmp_list c xs ys"
| "py_cmp c (PStr s) (PStr t) = Inr (case c of Lt \<Rightarrow> str_less s t | Gt \<Rightarrow> str_less t s)"
| "py_cmp c a b = num_cmp c a b"
| "py_cmp_list c [] [] = Inr False"
| "py_cmp_list c [] (y # ys) = Inr (c = Lt)"
| "py_cmp_list c (x # xs) [] = Inr (c = Gt)"
| "py_cmp_list c (x # xs) (y # ys) =
     (if py_eq x y then py_cmp_list c xs ys else py_cmp c x y)"

text \<open>
  \<open>max\<close> of a non-empty sequence keeps the first item and replaces it by each later
  item that is greater. \<open>max(xs) if xs else 0\<close> is \<open>max_or_zero xs\<close>.
\<close>

fun max_from :: "pyval \<Rightarrow> pyval list \<Rightarrow> pyexn + pyval" where
  "max_from m [] = Inr m"
| "max_from m (x # xs) =
     (case py_cmp Gt x m of
        Inl e \<Rightarrow> Inl e
      | Inr b \<Rightarrow> max_from (if b then x else m) xs)"

definition max_or_zero :: "pyval list \<Rightarrow> pyexn + pyval" where
  "max_or_zero xs = (case xs of [] \<Rightarrow> Inr (PInt 0) | x # xs' \<Rightarrow> max_from x xs')"

section \<open>The state store (state\_manager.py)\<close>

text \<open>
  A reading of the system clock is kept as the two texts the code makes of it:
  \<open>isoformat()\<close> and \<open>strftime('%Y%m%d_%H%M%S')\<close>.
\<close>

record datetime =
  isoformat :: string
  strftime :: string

record AgentState =
  customer_name :: pyval
  email :: pyval
  query :: pyval
  priority :: pyval
  ticket_id :: pyval
  current_stage :: string
  stage_history :: "string list"
  entities :: pydict
  normalized_fields :: pydict
  enriched_data :: pydict
  kb_results :: "pyval list"
  solutions :: "pyval list"
  solution_scores :: "pyval list"
  escalation_required :: pyval
  escalation_reason :: pyval
  actions_taken :: "pyval list"
  clarification_questions :: "pyval list"
  human_responses :: "pyval list"
  generated_response :: pyval
  created_at :: datetime
  updated_at :: datetime
  processing_log :: "pydict list"

text \<open>
  The state manager owns the state. The readings \<open>datetime.now()\<close> will return, in
  order, are an input of the model and travel with it.
\<close>

record StateManager =
  state :: AgentState
  clock :: "nat \<Rightarrow> datetime"

definition datetime_now :: "StateManager \<Rightarrow> datetime \<times> StateManager" where
  "datetime_now sm = (clock sm 0, sm\<lparr>clock := \<lambda>n. clock sm (Suc n)\<rparr>)"

text \<open>\<open>AgentState()\<close>: the field defaults; the two timestamps are two readings.\<close>

definition new_AgentState :: "datetime \<Rightarrow> datetime \<Rightarrow> AgentState" where
  "new_AgentState t1 t2 =
     \<lparr>customer_name = PStr '''', email = PStr '''', query = PStr '''', priority = PStr '''',
      ticket_id = PStr '''',
      current_stage = ''INTAKE'', stage_history = [],
      entities = [], normalized_fields = [], enriched_data = [],
      kb_results = [], solutions = [], solution_scores = [],
      escalation_required = PBool False, escalation_reason = PStr '''',
      actions_taken = [],
      clarification_questions = [], human_responses = [], generated_response = PStr '''',
      created_at = t1, updated_at = t2, processing_log = []\<rparr>"

definition new_StateManager :: "(nat \<Rightarrow> datetime) \<Rightarrow> StateManager" where
  "new_StateManager clk =
     \<lparr>state = new_AgentState (clk 0) (clk 1), clock = \<lambda>n. clk (Suc (Suc n))\<rparr>"

text \<open>
  A method that can raise returns the exception or its value, together with the manager
  as the call left it: what was stored before the exception stays stored.
\<close>

type_synonym 'a M = "StateManager \<Rightarrow> (pyexn + 'a) \<times> StateManager"

definition log_event :: "string \<Rightarrow> pydict \<Rightarrow> StateManager \<Rightarrow> StateManager" where
  "log_event event_type details sm =
     (let (t, sm1) = datetime_now sm;
          log_entry = [(''timestamp'', PStr (isoformat t)),
                       (''stage'', PStr (current_stage (state sm1))),
                       (''event_type'', PStr event_type),
                       (''details'', PDict details)]
      in sm1\<lparr>state := (state sm1)\<lparr>processing_log := processing_log (state sm1) @ [log_entry]\<rparr>\<rparr>)"

definition initialize_state :: "pydict \<Rightarrow> StateManager \<Rightarrow> StateManager" where
  "initialize_state input_data sm =
     log_event ''STATE_INITIALIZED'' [(''input_keys'', dict_keys input_data)]
       (sm\<lparr>state := (state sm)\<lparr>
          customer_name := dict_get input_data ''customer_name'' (PStr ''''),
          email := dict_get input_data ''email'' (PStr ''''),
          query := dict_get input_data ''query'' (PStr ''''),
          priority := dict_get input_data ''priority'' (PStr ''medium''),
          ticket_id := dict_get input_data ''ticket_id'' (PStr '''')\<rparr>\<rparr>)"

definition update_stage :: "string \<Rightarrow> StateManager \<Rightarrow> StateManager" where
  "update_stage stage_name sm =
     (let sm1 = (if current_stage (state sm) \<noteq> []
                 then sm\<lparr>state := (state sm)\<lparr>stage_history :=
                        stage_history (state sm) @ [current_stage (state sm)]\<rparr>\<rparr>
                 else sm);
          sm2 = sm1\<lparr>state := (state sm1)\<lparr>current_stage := stage_name\<rparr>\<rparr>;
          (t, sm3) = datetime_now sm2;
          sm4 = sm3\<lparr>state := (state sm3)\<lparr>updated_at := t\<rparr>\<rparr>
      in log_event ''STAGE_UPDATED''
           [(''from'', (case stage_history (state sm4) of
                          [] \<Rightarrow> PNone
                        | h # hs \<Rightarrow> PStr (last (h # hs)))),
            (''to'', PStr stage_name)]
           sm4)"

text \<open>
  What \<open>self.state.X.update(arg)\<close> followed by \<open>arg.keys()\<close> accepts: a dictionary.
  A number or \<open>None\<close> is not iterable, an empty str or list has no \<open>keys\<close>, the first
  character of a str is not a pair. The merge of a non-empty list of pairs that Python
  performs before \<open>keys\<close> fails is not modelled: the model raises at once.
\<close>

fun mapping_arg :: "pyval \<Rightarrow> pyexn + pydict" where
  "mapping_arg (PDict d) = Inr d"
| "mapping_arg (PStr []) = Inl (no_attribute (PStr []) ''keys'')"
| "mapping_arg (PStr (c # cs)) =
     Inl (ValueError ''dictionary update sequence element #0 has length 1; 2 is required'')"
| "mapping_arg (PList xs) = Inl (no_attribute (PList xs) ''keys'')"
| "mapping_arg v = Inl (not_iterable v)"

definition update_entities :: "pyval \<Rightarrow> unit M" where
  "update_entities arg sm =
     (case mapping_arg arg of
        Inl e \<Rightarrow> (Inl e, sm)
      | Inr d \<Rightarrow>
          (Inr (), log_event ''ENTITIES_UPDATED'' [(''entities'', dict_keys d)]
                     (sm\<lparr>state := (state sm)\<lparr>entities := dict_update (entities (state sm)) d\<rparr>\<rparr>)))"

definition update_normalized_fields :: "pyval \<Rightarrow> unit M" where
  "update_normalized_fields arg sm =
     (case mapping_arg arg of
        Inl e \<Rightarrow> (Inl e, sm)
      | Inr d \<Rightarrow>
          (Inr (), log_event ''FIELDS_NORMALIZED'' [(''fields'', dict_keys d)]
                     (sm\<lparr>state := (state sm)\<lparr>normalized_fields :=
                        dict_update (normalized_fields (state sm)) d\<rparr>\<rparr>)))"

definition add_enriched_data :: "pyval \<Rightarrow> unit M" where
  "add_enriched_data arg sm =
     (case mapping_arg arg of
        Inl e \<Rightarrow> (Inl e, sm)
      | Inr d \<Rightarrow>
          (Inr (), log_event ''DATA_ENRICHED'' [(''data_types'', dict_keys d)]
                     (sm\<lparr>state := (state sm)\<lparr>enriched_data :=
                        dict_update (enriched_data (state sm)) d\<rparr>\<rparr>)))"

definition add_kb_result :: "pyval \<Rightarrow> unit M" where
  "add_kb_result result sm =
     (let sm1 = sm\<lparr>state := (state sm)\<lparr>kb_results := kb_results (state sm) @ [result]\<rparr>\<rparr>
      in case py_get result ''id'' (PStr ''unknown'') of
           Inl e \<Rightarrow> (Inl e, sm1)
         | Inr i \<Rightarrow> (Inr (), log_event ''KB_RESULT_ADDED'' [(''result_id'', i)] sm1))"

definition add_solution :: "pyval \<Rightarrow> pyval \<Rightarrow> unit M" where
  "add_solution solution score sm =
     (let sm1 = sm\<lparr>state := (state sm)\<lparr>solutions := solutions (state sm) @ [solution]\<rparr>\<rparr>;
          sm2 = sm1\<lparr>state := (state sm1)\<lparr>solution_scores :=
                  solution_scores (state sm1) @ [score]\<rparr>\<rparr>
      in case py_get solution ''id'' (PStr ''unknown'') of
           Inl e \<Rightarrow> (Inl e, sm2)
         | Inr i \<Rightarrow>
             (Inr (), log_event ''SOLUTION_ADDED'' [(''score'', score), (''solution_id'', i)] sm2))"

definition set_escalation :: "pyval \<Rightarrow> pyval \<Rightarrow> StateManager \<Rightarrow> StateManager" where
  "set_escalation required reason sm =
     log_event ''ESCALATION_SET'' [(''required'', required), (''reason'', reason)]
       (sm\<lparr>state := (state sm)\<lparr>escalation_required := required,
                                 escalation_reason := reason\<rparr>\<rparr>)"

definition add_clarification_question :: "pyval \<Rightarrow> StateManager \<Rightarrow> StateManager" where
  "add_clarification_question question sm =
     log_event ''CLARIFICATION_ADDED'' [(''question'', question)]
       (sm\<lparr>state := (state sm)\<lparr>clarification_questions :=
          clarification_questions (state sm) @ [question]\<rparr>\<rparr>)"

definition add_human_response :: "pyval \<Rightarrow> unit M" where
  "add_human_response response sm =
     (let sm1 = sm\<lparr>state := (state sm)\<lparr>human_responses :=
                  human_responses (state sm) @ [response]\<rparr>\<rparr>
      in case py_len response of
           Inl e \<Rightarrow> (Inl e, sm1)
         | Inr n \<Rightarrow> (Inr (), log_event ''HUMAN_RESPONSE_ADDED'' [(''response_length'', n)] sm1))"

definition set_generated_response :: "pyval \<Rightarrow> unit M" where
  "set_generated_response response sm =
     (let sm1 = sm\<lparr>state := (state sm)\<lparr>generated_response := response\<rparr>\<rparr>
      in case py_len response of
           Inl e \<Rightarrow> (Inl e, sm1)
         | Inr n \<Rightarrow> (Inr (), log_event ''RESPONSE_GENERATED'' [(''response_length'', n)] sm1))"

definition add_action :: "pyval \<Rightarrow> StateManager \<Rightarrow> StateManager" where
  "add_action action sm =
     log_event ''ACTION_EXECUTED'' [(''action'', action)]
       (sm\<lparr>state := (state sm)\<lparr>actions_taken := actions_taken (state sm) @ [action]\<rparr>\<rparr>)"

text \<open>\<open>get_current_state\<close> returns a deep copy: the value of the state.\<close>

definition get_current_state :: "StateManager \<Rightarrow> AgentState" where
  "get_current_state sm = state sm"

definition export_final_payload :: "pydict M" where
  "export_final_payload sm =
     (let s = state sm in
      case max_or_zero (solution_scores s) of
        Inl e \<Rightarrow> (Inl e, sm)
      | Inr best \<Rightarrow>
          (Inr
            [(''input'', PDict
                [(''customer_name'', customer_name s),
                 (''email'', email s),
                 (''query'', query s),
                 (''priority'', priority s),
                 (''ticket_id'', ticket_id s)]),
             (''processing'', PDict
                [(''stages_completed'', PList (map PStr (stage_history s @ [current_stage s]))),
                 (''entities_extracted'', PDict (entities s)),
                 (''enriched_data'', PDict (enriched_data s)),
                 (''knowledge_base_results'', PInt (int (length (kb_results s)))),
                 (''solutions_evaluated'', PInt (int (length (solutions s))))]),
             (''decisions'', PDict
                [(''escalation_required'', escalation_required s),
                 (''escalation_reason'', escalation_reason s),
                 (''best_solution_score'', best)]),
             (''output'', PDict
                [(''generated_response'', generated_response s),
                 (''actions_executed'', PList (actions_taken s)),
                 (''final_status'',
                    PStr (if truthy (escalation_required s) then ''escalated'' else ''resolved''))]),
             (''metadata'', PDict
                [(''created_at'', PStr (isoformat (created_at s))),
                 (''completed_at'', PStr (isoformat (updated_at s))),
                 (''processing_log'', PList (map PDict (processing_log s)))])],
           sm))"

section \<open>Notions used by the properties of the state store\<close>

text \<open>The five input fields of a state.\<close>

definition input_fields :: "AgentState \<Rightarrow> pyval \<times> pyval \<times> pyval \<times> pyval \<times> pyval" where
  "input_fields s = (customer_name s, email s, query s, priority s, ticket_id s)"

text \<open>
  \<open>logged_once ev sm sm'\<close>: the log of \<open>sm'\<close> is the log of \<open>sm\<close> followed by one
  entry, and this entry has event type \<open>ev\<close>.
\<close>

definition event_type_of :: "pydict \<Rightarrow> pyval" where
  "event_type_of log_entry = dict_get log_entry ''event_type'' PNone"

definition logged_once :: "string \<Rightarrow> StateManager \<Rightarrow> StateManager \<Rightarrow> bool" where
  "logged_once ev sm sm' =
     (processing_log (state sm') = processing_log (state sm) @ [last (processing_log (state sm'))]
      \<and> event_type_of (last (processing_log (state sm'))) = PStr ev)"

text \<open>The results of \<open>n\<close> successive calls of \<open>export_final_payload\<close>, and the manager after them.\<close>

fun export_times :: "nat \<Rightarrow> StateManager \<Rightarrow> (pyexn + pydict) list \<times> StateManager" where
  "export_times 0 sm = ([], sm)"
| "export_times (Suc n) sm =
     (let (r, sm1) = export_final_payload sm;
          (rs, sm2) = export_times n sm1
      in (r # rs, sm2))"

text \<open>\<open>payload[section][key]\<close> of an exported payload.\<close>

definition payload_field :: "pydict \<Rightarrow> string \<Rightarrow> string \<Rightarrow> pyval option" where
  "payload_field p sect k =
     (case map_of p sect of
        Some (PDict d) \<Rightarrow> map_of d k
      | _ \<Rightarrow> None)"

text \<open>The clock of the examples: every reading is the same instant.\<close>

definition frozen_clock :: "nat \<Rightarrow> datetime" where
  "frozen_clock n = \<lparr>isoformat = ''2024-01-15T10:30:00'', strftime = ''20240115_103000''\<rparr>"

text \<open>The number a score denotes (0 for a value that is no number).\<close>

definition num_of :: "pyval \<Rightarrow> real" where
  "num_of v = (case py_num v of Some x \<Rightarrow> x | None \<Rightarrow> 0)"

definition is_number :: "pyval \<Rightarrow> bool" where
  "is_number v = (py_num v \<noteq> None)"

section \<open>The stage table (config.py)\<close>

datatype MCPServer = COMMON | ATLAS

fun server_value :: "MCPServer \<Rightarrow> string" where
  "server_value COMMON = ''common''"
| "server_value ATLAS = ''atlas''"

datatype StageMode = DETERMINISTIC | NON_DETERMINISTIC | HUMAN | PAYLOAD_ONLY

record Ability =
  name :: string
  server :: MCPServer
  description :: string

record Stage =
  name :: string
  mode :: StageMode
  abilities :: "Ability list"
  description :: string

text \<open>The constructor call \<open>Ability(name, server, description)\<close>.\<close>

definition Ability :: "string \<Rightarrow> MCPServer \<Rightarrow> string \<Rightarrow> Ability" where
  "Ability n s d = \<lparr>Ability.name = n, server = s, Ability.description = d\<rparr>"

definition STAGES :: "Stage list" where
  "STAGES =
    [\<lparr>name = ''INTAKE'', mode = PAYLOAD_ONLY,
      abilities = [Ability ''accept_payload'' COMMON ''Capture incoming request payload''],
      description = ''Accept and validate incoming customer request''\<rparr>,
     \<lparr>name = ''UNDERSTAND'', mode = DETERMINISTIC,
      abilities =
        [Ability ''parse_request_text'' COMMON ''Convert unstructured request to structured data'',
         Ability ''extract_entities'' ATLAS ''Identify product, account, dates''],
      description = ''Parse and understand customer request''\<rparr>,
     \<lparr>name = ''PREPARE'', mode = DETERMINISTIC,
      abilities =
        [Ability ''normalize_fields'' COMMON ''Standardize dates, codes, IDs'',
         Ability ''enrich_records'' ATLAS ''Add SLA, historical ticket info'',
         Ability ''add_flags_calculations'' COMMON ''Compute priority or SLA risk''],
      description = ''Normalize and enrich customer data''\<rparr>,
     \<lparr>name = ''ASK'', mode = HUMAN,
      abilities = [Ability ''clarify_question'' ATLAS ''Request missing information''],
      description = ''Ask clarifying questions if needed''\<rparr>,
     \<lparr>name = ''WAIT'', mode = DETERMINISTIC,
      abilities =
        [Ability ''extract_answer'' ATLAS ''Wait and capture concise response'',
         Ability ''store_answer'' COMMON ''Update payload with response''],
      description = ''Wait for and process human responses''\<rparr>,
     \<lparr>name = ''RETRIEVE'', mode = DETERMINISTIC,
      abilities =
        [Ability ''knowledge_base_search'' ATLAS ''Lookup KB or FAQ'',
         Ability ''store_data'' COMMON ''Attach retrieved info to payload''],
      description = ''Search knowledge base for solutions''\<rparr>,
     \<lparr>name = ''DECIDE'', mode = NON_DETERMINISTIC,
      abilities =
        [Ability ''solution_evaluation'' COMMON ''Score potential solutions 1-100'',
         Ability ''escalation_decision'' ATLAS ''Assign to human agent if score <90'',
         Ability ''update_payload'' COMMON ''Record decision outcomes''],
      description = ''Evaluate solutions and make escalation decisions''\<rparr>,
     \<lparr>name = ''UPDATE'', mode = DETERMINISTIC,
      abilities =
        [Ability ''update_ticket'' ATLAS ''Modify status, fields, priority'',
         Ability ''close_ticket'' ATLAS ''Mark issue resolved''],
      description = ''Update ticket status and information''\<rparr>,
     \<lparr>name = ''CREATE'', mode = DETERMINISTIC,
      abilities = [Ability ''response_generation'' COMMON ''Draft customer reply''],
      description = ''Generate customer response''\<rparr>,
     \<lparr>name = ''DO'', mode = DETERMINISTIC,
      abilities =
        [Ability ''execute_api_calls'' ATLAS ''Trigger CRM/order system actions'',
         Ability ''trigger_notifications'' ATLAS ''Notify customer''],
      description = ''Execute actions and send notifications''\<rparr>,
     \<lparr>name = ''COMPLETE'', mode = PAYLOAD_ONLY,
      abilities = [Ability ''output_payload'' COMMON ''Print final structured payload''],
      description = ''Output final results''\<rparr>]"

section \<open>Strings\<close>

text \<open>
  \<open>str.lower\<close>, \<open>str.split\<close> without argument and the substring test \<open>a in b\<close>, on
  code points below 256: the upper case letters are A to Z and U+00C0 to U+00DE without
  the multiplication sign; white space is U+0009 to U+000D, U+001C to U+0020, U+0085 and
  U+00A0.
\<close>

definition lower_char :: "char \<Rightarrow> char" where
  "lower_char c =
     (let n = (of_char c :: nat) in
      if (65 \<le> n \<and> n \<le> 90) \<or> (192 \<le> n \<and> n \<le> 222 \<and> n \<noteq> 215) then char_of (n + 32) else c)"

definition py_lower :: "string \<Rightarrow> string" where
  "py_lower s = map lower_char s"

definition is_space :: "char \<Rightarrow> bool" where
  "is_space c =
     (let n = (of_char c :: nat) in
      (9 \<le> n \<and> n \<le> 13) \<or> (28 \<le> n \<and> n \<le> 32) \<or> n = 133 \<or> n = 160)"

fun split_from :: "string \<Rightarrow> string \<Rightarrow> string list" where
  "split_from w [] = (if w = [] then [] else [w])"
| "split_from w (c # cs) =
     (if is_space c then (if w = [] then split_from [] cs else w # split_from [] cs)
      else split_from (w @ [c]) cs)"

definition py_split :: "string \<Rightarrow> string list" where
  "py_split s = split_from [] s"

fun starts_with :: "string \<Rightarrow> string \<Rightarrow> bool" where
  "starts_with [] s = True"
| "starts_with (a # as) [] = False"
| "starts_with (a # as) (c # cs) = (a = c \<and> starts_with as cs)"

fun str_contains :: "string \<Rightarrow> string \<Rightarrow> bool" where
  "str_contains a [] = (a = [])"
| "str_contains a (c # cs) = (starts_with a (c # cs) \<or> str_contains a cs)"

text \<open>Decimal digits of a natural number and of an integer.\<close>

fun decimal :: "nat \<Rightarrow> string" where
  "decimal n =
     (if n < 10 then [''0123456789'' ! n]
      else decimal (n div 10) @ [''0123456789'' ! (n mod 10)])"

declare decimal.simps [simp del]

definition str_of_int :: "int \<Rightarrow> string" where
  "str_of_int i = (if i < 0 then ''-'' @ decimal (nat (- i)) else decimal (nat i))"

section \<open>What the embedded code takes from outside\<close>

text \<open>
  A handler method of a client takes the context and may read the clock; it returns a
  result dictionary or raises. Two handlers are embedded below. The others, whose
  business logic the agent treats as a stand-in for a real service, are a parameter:
  \<open>handlers rt srv n\<close> is the method \<open>_handle_n\<close> of the client class of group \<open>srv\<close>,
  or \<open>None\<close> when that class has no such method. \<open>str_other rt\<close> is Python's \<open>str\<close> on
  the values whose text is not embedded here (floats, lists, dictionaries).
  \<open>asyncio.sleep\<close> has no effect on a result and is left out.
\<close>

type_synonym clock = "nat \<Rightarrow> datetime"

type_synonym handler = "pydict \<Rightarrow> clock \<Rightarrow> (pyexn + pydict) \<times> clock"

record Runtime =
  handlers :: "MCPServer \<Rightarrow> string \<Rightarrow> handler option"
  str_other :: "pyval \<Rightarrow> string"

text \<open>\<open>str(v)\<close>, as an f-string formats a value.\<close>

fun py_str :: "Runtime \<Rightarrow> pyval \<Rightarrow> string" where
  "py_str rt (PStr s) = s"
| "py_str rt (PInt i) = str_of_int i"
| "py_str rt (PBool b) = (if b then ''True'' else ''False'')"
| "py_str rt PNone = ''None''"
| "py_str rt v = str_other rt v"

section \<open>The ability clients (mcp\_client.py)\<close>

record MCPClient =
  server_type :: MCPServer
  connected :: bool

definition new_MCPClient :: "MCPServer \<Rightarrow> MCPClient" where
  "new_MCPClient srv = \<lparr>server_type = srv, connected = False\<rparr>"

definition connect :: "MCPClient \<Rightarrow> bool \<times> MCPClient" where
  "connect self = (True, self\<lparr>connected := True\<rparr>)"

definition disconnect :: "MCPClient \<Rightarrow> MCPClient" where
  "disconnect self = self\<lparr>connected := False\<rparr>"

text \<open>A handler reads and advances the clock of the manager and touches nothing else.\<close>

definition run_handler :: "(clock \<Rightarrow> (pyexn + pydict) \<times> clock) \<Rightarrow> pydict M" where
  "run_handler f sm = (let (r, c) = f (clock sm) in (r, sm\<lparr>clock := c\<rparr>))"

definition default_handler :: "Ability \<Rightarrow> handler" where
  "default_handler ability context clk =
     (Inr [(''ability'', PStr (Ability.name ability)),
           (''server'', PStr (server_value (server ability))),
           (''status'', PStr ''completed''),
           (''timestamp'', PStr (isoformat (clk 0))),
           (''result'', PStr (''Executed '' @ Ability.name ability @ '' successfully''))],
      \<lambda>n. clk (Suc n))"

text \<open>
  \<open>CommonMCPClient._handle_parse_request_text\<close>. A query that is no str has neither
  \<open>split\<close> nor \<open>lower\<close>: a true one fails at the word count, a false one at the first
  keyword test.
\<close>

definition urgency_words :: "string list" where
  "urgency_words = [''urgent'', ''emergency'', ''asap'', ''critical'', ''immediately'']"

definition handle_parse_request_text :: handler where
  "handle_parse_request_text context clk =
     (case dict_get context ''query'' (PStr '''') of
        PStr q \<Rightarrow>
          (Inr [(''parsed_data'', PDict
                   [(''intent'', PStr ''support_request''),
                    (''sentiment'', PStr ''neutral''),
                    (''urgency_keywords'', PList (map PStr
                        (filter (\<lambda>word. str_contains (py_lower word) (py_lower q))
                           urgency_words))),
                    (''word_count'',
                       PInt (if q \<noteq> [] then int (length (py_split q)) else 0))]),
                (''original_length'', PInt (int (length q))),
                (''structured'', PBool True)],
           clk)
      | v \<Rightarrow> (Inl (no_attribute v (if truthy v then ''split'' else ''lower'')), clk))"

text \<open>
  \<open>AtlasMCPClient._handle_escalation_decision\<close>. The scores are read off the solutions
  of the context in order and the first failure raises; \<open>0.9\<close> is the double nearest to
  nine tenths.
\<close>

fun get_scores :: "pyval list \<Rightarrow> pyexn + pyval list" where
  "get_scores [] = Inr []"
| "get_scores (s # ss) =
     (case py_get s ''score'' (PInt 0) of
        Inl e \<Rightarrow> Inl e
      | Inr v \<Rightarrow> (case get_scores ss of Inl e \<Rightarrow> Inl e | Inr vs \<Rightarrow> Inr (v # vs)))"

definition py_max :: "pyval list \<Rightarrow> pyexn + pyval" where
  "py_max xs =
     (case xs of
        [] \<Rightarrow> Inl (ValueError ''max() arg is an empty sequence'')
      | x # xs' \<Rightarrow> max_from x xs')"

definition best_score_of :: "pyval \<Rightarrow> pyexn + pyval" where
  "best_score_of sols =
     (if truthy sols
      then (case py_iter sols of
              Inl e \<Rightarrow> Inl e
            | Inr ss \<Rightarrow> (case get_scores ss of Inl e \<Rightarrow> Inl e | Inr vs \<Rightarrow> py_max vs))
      else Inr (PInt 0))"

definition handle_escalation_decision :: "Runtime \<Rightarrow> handler" where
  "handle_escalation_decision rt context clk =
     (case best_score_of (dict_get context ''solutions'' (PList [])) of
        Inl e \<Rightarrow> (Inl e, clk)
      | Inr best_score \<Rightarrow>
          (case py_cmp Lt best_score (PInt 90) of
             Inl e \<Rightarrow> (Inl e, clk)
           | Inr escalate \<Rightarrow>
               (case py_cmp Lt best_score (PInt 70) of
                  Inl e \<Rightarrow> (Inl e, clk)
                | Inr low \<Rightarrow>
                    (Inr [(''escalation_decision'', PDict
                             [(''escalation_required'', PBool escalate),
                              (''reason'', PStr
                                 (if escalate
                                  then ''Best solution score ('' @ py_str rt best_score
                                         @ '') below threshold (90)''
                                  else ''Sufficient solution found'')),
                              (''assigned_to'', PStr
                                 (if escalate then ''specialist_team'' else ''automated_system'')),
                              (''priority'', PStr (if low then ''high'' else ''medium''))]),
                          (''decision_confidence'',
                             PFloat (8106479329266893 / 9007199254740992)),
                          (''threshold_used'', PInt 90)],
                     clk))))"

text \<open>
  \<open>hasattr(self, "_handle_" + name)\<close> and \<open>getattr\<close>: the embedded handlers of the two
  classes, and the others from the parameter.
\<close>

definition client_handler :: "Runtime \<Rightarrow> MCPServer \<Rightarrow> string \<Rightarrow> handler option" where
  "client_handler rt srv n =
     (if srv = COMMON \<and> n = ''parse_request_text'' then Some handle_parse_request_text
      else if srv = ATLAS \<and> n = ''escalation_decision'' then Some (handle_escalation_decision rt)
      else handlers rt srv n)"

definition execute_ability :: "Runtime \<Rightarrow> MCPClient \<Rightarrow> Ability \<Rightarrow> pydict \<Rightarrow> pydict M" where
  "execute_ability rt self ability context sm =
     (if \<not> connected self
      then (Inl (MCPClientError
                  (''Not connected to '' @ server_value (server_type self) @ '' server'')), sm)
      else if server ability \<noteq> server_type self
      then (Inl (MCPClientError
                  (''Ability '' @ Ability.name ability @ '' belongs to ''
                     @ server_value (server ability) @ '', not ''
                     @ server_value (server_type self))), sm)
      else (case client_handler rt (server_type self) (Ability.name ability) of
              Some h \<Rightarrow> run_handler (h context) sm
            | None \<Rightarrow> run_handler (default_handler ability context) sm))"

section \<open>The stage executor (stage\_nodes.py)\<close>

subsection \<open>Sequencing calls that can raise\<close>

definition ok :: "'a \<Rightarrow> 'a M" where
  "ok x sm = (Inr x, sm)"

definition and_then :: "'a M \<Rightarrow> ('a \<Rightarrow> 'b M) \<Rightarrow> 'b M" where
  "and_then m f sm = (case m sm of (Inl e, sm1) \<Rightarrow> (Inl e, sm1) | (Inr x, sm1) \<Rightarrow> f x sm1)"

text \<open>\<open>for x in xs: f(x)\<close> on a list, and on a value of any type.\<close>

fun for_each :: "('a \<Rightarrow> unit M) \<Rightarrow> 'a list \<Rightarrow> unit M" where
  "for_each f [] sm = (Inr (), sm)"
| "for_each f (x # xs) sm =
     (case f x sm of (Inl e, sm1) \<Rightarrow> (Inl e, sm1) | (Inr u, sm1) \<Rightarrow> for_each f xs sm1)"

definition for_in :: "pyval \<Rightarrow> (pyval \<Rightarrow> unit M) \<Rightarrow> unit M" where
  "for_in v f sm = (case py_iter v of Inl e \<Rightarrow> (Inl e, sm) | Inr xs \<Rightarrow> for_each f xs sm)"

subsection \<open>The executor and its clients\<close>

record StageExecutor =
  common_client :: MCPClient
  atlas_client :: MCPClient
  clients_connected :: bool

definition new_StageExecutor :: StageExecutor where
  "new_StageExecutor =
     \<lparr>common_client = new_MCPClient COMMON, atlas_client = new_MCPClient ATLAS,
      clients_connected = False\<rparr>"

definition setup_clients :: "StageExecutor \<Rightarrow> bool \<times> StageExecutor" where
  "setup_clients self =
     (if \<not> clients_connected self
      then (let (common_connected, c) = connect (common_client self);
                (atlas_connected, a) = connect (atlas_client self);
                self1 = self\<lparr>common_client := c, atlas_client := a,
                             clients_connected := (common_connected \<and> atlas_connected)\<rparr>
            in (clients_connected self1, self1))
      else (clients_connected self, self))"

definition cleanup_clients :: "StageExecutor \<Rightarrow> StageExecutor" where
  "cleanup_clients self =
     self\<lparr>common_client := disconnect (common_client self),
          atlas_client := disconnect (atlas_client self),
          clients_connected := False\<rparr>"

text \<open>\<open>get_client\<close>; a server type is one of the two, so its \<open>ValueError\<close> cannot arise.\<close>

definition get_client :: "StageExecutor \<Rightarrow> MCPServer \<Rightarrow> MCPClient" where
  "get_client self srv = (case srv of COMMON \<Rightarrow> common_client self | ATLAS \<Rightarrow> atlas_client self)"

definition build_context :: "AgentState \<Rightarrow> pydict" where
  "build_context s =
     [(''customer_name'', customer_name s),
      (''email'', email s),
      (''query'', query s),
      (''priority'', priority s),
      (''ticket_id'', ticket_id s),
      (''priority_level'', dict_get (normalized_fields s) ''priority_level'' (PInt 2)),
      (''extracted_entities'', PDict (entities s)),
      (''enriched_data'', PDict (enriched_data s)),
      (''kb_results'', PList (kb_results s)),
      (''solutions'', PList (solutions s)),
      (''escalation_required'', escalation_required s),
      (''human_responses'', PList (human_responses s)),
      (''generated_response'', generated_response s),
      (''actions_taken'', PList (actions_taken s))]"

definition update_state_from_result :: "Ability \<Rightarrow> pydict \<Rightarrow> unit M" where
  "update_state_from_result ability result =
     (if Ability.name ability = ''extract_entities''
      then update_entities (dict_get result ''extracted_entities'' (PDict []))
      else if Ability.name ability = ''normalize_fields''
      then update_normalized_fields (dict_get result ''normalized_fields'' (PDict []))
      else if Ability.name ability = ''enrich_records''
      then add_enriched_data (dict_get result ''enriched_data'' (PDict []))
      else if Ability.name ability = ''knowledge_base_search''
      then for_in (dict_get result ''kb_results'' (PList [])) add_kb_result
      else if Ability.name ability = ''response_generation''
      then set_generated_response (dict_get result ''generated_response'' (PStr ''''))
      else if Ability.name ability = ''extract_answer''
      then (let answer = dict_get result ''extracted_answer'' (PStr '''')
            in if truthy answer \<and> \<not> py_eq answer (PStr ''No response provided'')
               then add_human_response answer
               else ok ())
      else ok ())"

text \<open>The entry \<open>except MCPClientError as e\<close> records, and the value a stage returns.\<close>

definition error_result :: "pyexn \<Rightarrow> Ability \<Rightarrow> pydict" where
  "error_result e ability =
     [(''error'', PStr (exc_str e)), (''ability'', PStr (Ability.name ability))]"

definition stage_result :: "Stage \<Rightarrow> pydict list \<Rightarrow> pydict" where
  "stage_result stage_config results =
     [(''stage'', PStr (name stage_config)),
      (''results'', PList (map PDict results)),
      (''status'', PStr ''completed'')]"

subsection \<open>The four execution modes\<close>

text \<open>
  Each loop runs the abilities in their order with the results so far and the context.
  Its \<open>try\<close> body is the call of the ability and what follows it; an exception of class
  \<open>MCPClientError\<close> raised anywhere in that body adds an error entry to the results,
  after what the body had already appended, and the loop goes on; any other exception
  leaves the loop and the stage.
\<close>

fun payload_loop ::
  "Runtime \<Rightarrow> StageExecutor \<Rightarrow> Ability list \<Rightarrow> pydict list \<Rightarrow> pydict \<Rightarrow> (pydict list) M" where
  "payload_loop rt self [] results context sm = (Inr results, sm)"
| "payload_loop rt self (ability # rest) results context sm =
     (case execute_ability rt (get_client self (server ability)) ability context sm of
        (Inl e, sm1) \<Rightarrow>
          (if exc_class e = ''MCPClientError''
           then payload_loop rt self rest (results @ [error_result e ability]) context sm1
           else (Inl e, sm1))
      | (Inr result, sm1) \<Rightarrow>
          (if Ability.name ability = ''accept_payload''
           then payload_loop rt self rest (results @ [result]) context sm1
           else if Ability.name ability = ''output_payload''
           then (case export_final_payload sm1 of
                   (Inl e, sm2) \<Rightarrow>
                     (if exc_class e = ''MCPClientError''
                      then payload_loop rt self rest
                             (results @ [result] @ [error_result e ability]) context sm2
                      else (Inl e, sm2))
                 | (Inr final_payload, sm2) \<Rightarrow>
                     payload_loop rt self rest
                       (results @ [dict_set result ''final_payload'' (PDict final_payload)])
                       context sm2)
           else payload_loop rt self rest (results @ [result]) context sm1))"

definition execute_payload_stage :: "Runtime \<Rightarrow> StageExecutor \<Rightarrow> Stage \<Rightarrow> pydict M" where
  "execute_payload_stage rt self stage_config sm =
     (case payload_loop rt self (abilities stage_config) []
             (build_context (get_current_state sm)) sm of
        (Inl e, sm1) \<Rightarrow> (Inl e, sm1)
      | (Inr results, sm1) \<Rightarrow> (Inr (stage_result stage_config results), sm1))"

fun deterministic_loop ::
  "Runtime \<Rightarrow> StageExecutor \<Rightarrow> Ability list \<Rightarrow> pydict list \<Rightarrow> pydict \<Rightarrow> (pydict list) M" where
  "deterministic_loop rt self [] results context sm = (Inr results, sm)"
| "deterministic_loop rt self (ability # rest) results context sm =
     (case execute_ability rt (get_client self (server ability)) ability context sm of
        (Inl e, sm1) \<Rightarrow>
          (if exc_class e = ''MCPClientError''
           then deterministic_loop rt self rest (results @ [error_result e ability]) context sm1
           else (Inl e, sm1))
      | (Inr result, sm1) \<Rightarrow>
          (case update_state_from_result ability result sm1 of
             (Inl e, sm2) \<Rightarrow>
               (if exc_class e = ''MCPClientError''
                then deterministic_loop rt self rest
                       (results @ [result] @ [error_result e ability]) context sm2
                else (Inl e, sm2))
           | (Inr u, sm2) \<Rightarrow>
               deterministic_loop rt self rest (results @ [result])
                 (build_context (get_current_state sm2)) sm2))"

definition execute_deterministic_stage :: "Runtime \<Rightarrow> StageExecutor \<Rightarrow> Stage \<Rightarrow> pydict M" where
  "execute_deterministic_stage rt self stage_config sm =
     (case deterministic_loop rt self (abilities stage_config) []
             (build_context (get_current_state sm)) sm of
        (Inl e, sm1) \<Rightarrow> (Inl e, sm1)
      | (Inr results, sm1) \<Rightarrow> (Inr (stage_result stage_config results), sm1))"

fun human_loop ::
  "Runtime \<Rightarrow> StageExecutor \<Rightarrow> Ability list \<Rightarrow> pydict list \<Rightarrow> pydict \<Rightarrow> (pydict list) M" where
  "human_loop rt self [] results context sm = (Inr results, sm)"
| "human_loop rt self (ability # rest) results context sm =
     (case execute_ability rt (get_client self (server ability)) ability context sm of
        (Inl e, sm1) \<Rightarrow>
          (if exc_class e = ''MCPClientError''
           then human_loop rt self rest (results @ [error_result e ability]) context sm1
           else (Inl e, sm1))
      | (Inr result, sm1) \<Rightarrow>
          (if Ability.name ability = ''clarify_question''
           then (case for_in (dict_get result ''clarification_questions'' (PList []))
                        (\<lambda>question m. (Inr (), add_clarification_question question m)) sm1 of
                   (Inl e, sm2) \<Rightarrow>
                     (if exc_class e = ''MCPClientError''
                      then human_loop rt self rest
                             (results @ [result] @ [error_result e ability]) context sm2
                      else (Inl e, sm2))
                 | (Inr u, sm2) \<Rightarrow> human_loop rt self rest (results @ [result]) context sm2)
           else human_loop rt self rest (results @ [result]) context sm1))"

definition execute_human_stage :: "Runtime \<Rightarrow> StageExecutor \<Rightarrow> Stage \<Rightarrow> pydict M" where
  "execute_human_stage rt self stage_config sm =
     (case human_loop rt self (abilities stage_config) []
             (build_context (get_current_state sm)) sm of
        (Inl e, sm1) \<Rightarrow> (Inl e, sm1)
      | (Inr results, sm1) \<Rightarrow> (Inr (stage_result stage_config results), sm1))"

text \<open>
  The three steps of DECIDE. No \<open>try\<close> surrounds them: every exception leaves the stage.
  The context of the third step is the one built after the first.
\<close>

definition decide_evaluate ::
  "Runtime \<Rightarrow> StageExecutor \<Rightarrow> Stage \<Rightarrow> pydict \<Rightarrow> (pydict list \<times> pydict) M" where
  "decide_evaluate rt self stage_config context =
     (case find (\<lambda>a. Ability.name a = ''solution_evaluation'') (abilities stage_config) of
        None \<Rightarrow> ok ([], context)
      | Some solution_ability \<Rightarrow>
          and_then
            (execute_ability rt (get_client self (server solution_ability)) solution_ability
               context)
            (\<lambda>eval_result.
               and_then
                 (for_in (dict_get eval_result ''solutions'' (PList []))
                    (\<lambda>solution m.
                       (case py_get solution ''score'' (PInt 0) of
                          Inl e \<Rightarrow> (Inl e, m)
                        | Inr score \<Rightarrow> add_solution solution score m)))
                 (\<lambda>u m. (Inr ([eval_result], build_context (get_current_state m)), m))))"

definition decide_escalate ::
  "Runtime \<Rightarrow> StageExecutor \<Rightarrow> Stage \<Rightarrow> pydict list \<Rightarrow> pydict \<Rightarrow> (pydict list) M" where
  "decide_escalate rt self stage_config results context =
     (case find (\<lambda>a. Ability.name a = ''escalation_decision'') (abilities stage_config) of
        None \<Rightarrow> ok results
      | Some escalation_ability \<Rightarrow>
          and_then
            (execute_ability rt (get_client self (server escalation_ability)) escalation_ability
               context)
            (\<lambda>escalation_result m.
               (let escalation_data =
                      dict_get escalation_result ''escalation_decision'' (PDict [])
                in case py_get escalation_data ''escalation_required'' (PBool False) of
                     Inl e \<Rightarrow> (Inl e, m)
                   | Inr required \<Rightarrow>
                       (case py_get escalation_data ''reason'' (PStr '''') of
                          Inl e \<Rightarrow> (Inl e, m)
                        | Inr reason \<Rightarrow>
                            (Inr (results @ [escalation_result]),
                             set_escalation required reason m)))))"

definition decide_update ::
  "Runtime \<Rightarrow> StageExecutor \<Rightarrow> Stage \<Rightarrow> pydict list \<Rightarrow> pydict \<Rightarrow> (pydict list) M" where
  "decide_update rt self stage_config results context =
     (case find (\<lambda>a. Ability.name a = ''update_payload'') (abilities stage_config) of
        None \<Rightarrow> ok results
      | Some update_ability \<Rightarrow>
          and_then
            (execute_ability rt (get_client self (server update_ability)) update_ability context)
            (\<lambda>update_result. ok (results @ [update_result])))"

definition execute_non_deterministic_stage ::
  "Runtime \<Rightarrow> StageExecutor \<Rightarrow> Stage \<Rightarrow> pydict M" where
  "execute_non_deterministic_stage rt self stage_config sm =
     (if name stage_config = ''DECIDE''
      then and_then (decide_evaluate rt self stage_config (build_context (get_current_state sm)))
             (\<lambda>rc. and_then (decide_escalate rt self stage_config (fst rc) (snd rc))
                (\<lambda>results2. and_then (decide_update rt self stage_config results2 (snd rc))
                   (\<lambda>results3. ok (stage_result stage_config results3)))) sm
      else (Inr (stage_result stage_config []), sm))"

definition execute_stage :: "Runtime \<Rightarrow> StageExecutor \<Rightarrow> string \<Rightarrow> pydict M" where
  "execute_stage rt self stage_name sm =
     (case find (\<lambda>s. name s = stage_name) STAGES of
        None \<Rightarrow> (Inl (ValueError (''Unknown stage: '' @ stage_name)), sm)
      | Some stage_config \<Rightarrow>
          (let sm1 = update_stage stage_name sm
           in case mode stage_config of
                PAYLOAD_ONLY \<Rightarrow> execute_payload_stage rt self stage_config sm1
              | DETERMINISTIC \<Rightarrow> execute_deterministic_stage rt self stage_config sm1
              | NON_DETERMINISTIC \<Rightarrow> execute_non_deterministic_stage rt self stage_config sm1
              | HUMAN \<Rightarrow> execute_human_stage rt self stage_config sm1))"

subsection \<open>The node functions\<close>

text \<open>
  A node makes an executor, connects its clients, executes its stage and disconnects
  in a \<open>finally\<close>; the executor is dropped at the end.
\<close>

definition run_node :: "Runtime \<Rightarrow> string \<Rightarrow> pydict M" where
  "run_node rt stage_name sm =
     (let (connected_now, executor) = setup_clients new_StageExecutor
      in execute_stage rt executor stage_name sm)"

definition intake_node :: "Runtime \<Rightarrow> pydict M" where
  "intake_node rt = run_node rt ''INTAKE''"

definition understand_node :: "Runtime \<Rightarrow> pydict M" where
  "understand_node rt = run_node rt ''UNDERSTAND''"

definition prepare_node :: "Runtime \<Rightarrow> pydict M" where
  "prepare_node rt = run_node rt ''PREPARE''"

definition ask_node :: "Runtime \<Rightarrow> pydict M" where
  "ask_node rt = run_node rt ''ASK''"

definition wait_node :: "Runtime \<Rightarrow> pydict M" where
  "wait_node rt = run_node rt ''WAIT''"

definition retrieve_node :: "Runtime \<Rightarrow> pydict M" where
  "retrieve_node rt = run_node rt ''RETRIEVE''"

definition decide_node :: "Runtime \<Rightarrow> pydict M" where
  "decide_node rt = run_node rt ''DECIDE''"

definition update_node :: "Runtime \<Rightarrow> pydict M" where
  "update_node rt = run_node rt ''UPDATE''"

definition create_node :: "Runtime \<Rightarrow> pydict M" where
  "create_node rt = run_node rt ''CREATE''"

definition do_node :: "Runtime \<Rightarrow> pydict M" where
  "do_node rt = run_node rt ''DO''"

definition complete_node :: "Runtime \<Rightarrow> pydict M" where
  "complete_node rt = run_node rt ''COMPLETE''"

section \<open>The agent (langgraph\_agent.py)\<close>

text \<open>
  \<open>_wrap_node\<close>: the node runs on the manager of the agent; its result is merged into
  the graph state, and an exception of any class becomes the entry \<open>error\<close> of the graph
  state. Either way the graph state is returned and the run goes on.
\<close>

definition wrapped_node ::
  "Runtime \<Rightarrow> (Runtime \<Rightarrow> pydict M) \<Rightarrow> pydict \<Rightarrow> StateManager \<Rightarrow> pydict \<times> StateManager" where
  "wrapped_node rt node_func gs sm =
     (case node_func rt sm of
        (Inr result, sm1) \<Rightarrow> (dict_update gs result, sm1)
      | (Inl e, sm1) \<Rightarrow> (dict_set gs ''error'' (PStr (exc_str e)), sm1))"

definition should_escalate :: "StateManager \<Rightarrow> string" where
  "should_escalate sm =
     (if truthy (escalation_required (get_current_state sm)) then ''escalate'' else ''continue'')"

text \<open>
  \<open>_build_graph\<close>: the nodes, the entry point, the edges and the routing after
  \<open>decide\<close>. \<open>None\<close> stands for \<open>END\<close>.
\<close>

definition graph_nodes :: "(string \<times> (Runtime \<Rightarrow> pydict M)) list" where
  "graph_nodes =
     [(''intake'', intake_node), (''understand'', understand_node),
      (''prepare'', prepare_node), (''ask'', ask_node), (''wait'', wait_node),
      (''retrieve'', retrieve_node), (''decide'', decide_node), (''update'', update_node),
      (''create'', create_node), (''do'', do_node), (''complete'', complete_node)]"

definition entry_point :: string where
  "entry_point = ''intake''"

definition graph_edges :: "(string \<times> string) list" where
  "graph_edges =
     [(''intake'', ''understand''), (''understand'', ''prepare''), (''prepare'', ''ask''),
      (''ask'', ''wait''), (''wait'', ''retrieve''), (''retrieve'', ''decide''),
      (''update'', ''create''), (''create'', ''do''), (''do'', ''complete'')]"

definition next_node :: "string \<Rightarrow> StateManager \<Rightarrow> string option" where
  "next_node n sm =
     (if n = ''decide''
      then map_of [(''escalate'', ''update''), (''continue'', ''update'')] (should_escalate sm)
      else map_of graph_edges n)"

text \<open>
  The compiled graph, as the library runs it on a thread it has not seen before: the
  node of the entry point, then the node its edge leads to, until \<open>END\<close>. The library
  gives up after 25 steps (its default recursion limit), which is the fuel here.
\<close>

fun run_graph ::
  "Runtime \<Rightarrow> nat \<Rightarrow> string \<Rightarrow> pydict \<Rightarrow> StateManager \<Rightarrow> (pyexn + pydict) \<times> StateManager" where
  "run_graph rt 0 n gs sm =
     (Inl (PyExc ''GraphRecursionError'' ''Recursion limit of 25 reached''), sm)"
| "run_graph rt (Suc k) n gs sm =
     (case map_of graph_nodes n of
        None \<Rightarrow> (Inl (PyExc ''KeyError'' n), sm)
      | Some node_func \<Rightarrow>
          (case wrapped_node rt node_func gs sm of
             (gs1, sm1) \<Rightarrow>
               (case next_node n sm1 of
                  None \<Rightarrow> (Inr gs1, sm1)
                | Some n' \<Rightarrow> run_graph rt k n' gs1 sm1)))"

definition ainvoke :: "Runtime \<Rightarrow> pydict \<Rightarrow> StateManager \<Rightarrow> (pyexn + pydict) \<times> StateManager" where
  "ainvoke rt initial_state sm = run_graph rt 25 entry_point initial_state sm"

text \<open>
  \<open>process_request\<close> on the manager of the agent. The default of the request id is
  computed whether the ticket id is there or not, so the clock is read twice before the
  run. An exception of the run or of the export gives the error payload.
\<close>

definition error_payload :: "pyexn \<Rightarrow> pydict \<Rightarrow> StateManager \<Rightarrow> pydict \<times> StateManager" where
  "error_payload e input_data sm =
     (let (t, sm1) = datetime_now sm
      in ([(''error'', PStr (exc_str e)),
           (''status'', PStr ''failed''),
           (''timestamp'', PStr (isoformat t)),
           (''input_data'', PDict input_data)], sm1))"

definition process_request :: "Runtime \<Rightarrow> pydict \<Rightarrow> StateManager \<Rightarrow> pydict \<times> StateManager" where
  "process_request rt input_data sm =
     (let sm1 = initialize_state input_data sm;
          (t1, sm2) = datetime_now sm1;
          (t2, sm3) = datetime_now sm2;
          initial_state =
            [(''request_id'', dict_get input_data ''ticket_id'' (PStr (''req_'' @ strftime t1))),
             (''input_data'', PDict input_data),
             (''processing_started'', PStr (isoformat t2))]
      in case ainvoke rt initial_state sm3 of
           (Inl e, sm4) \<Rightarrow> error_payload e input_data sm4
         | (Inr final_state, sm4) \<Rightarrow>
             (case export_final_payload sm4 of
                (Inl e, sm5) \<Rightarrow> error_payload e input_data sm5
              | (Inr final_payload, sm5) \<Rightarrow>
                  (dict_set final_state ''final_payload'' (PDict final_payload), sm5)))"

section \<open>Notions used by the properties of the workflow\<close>

text \<open>The fields of a state that tell the stages gone through, and those of the decision.\<close>

definition stage_fields :: "AgentState \<Rightarrow> string list \<times> string" where
  "stage_fields s = (stage_history s, current_stage s)"

definition decision_fields :: "AgentState \<Rightarrow> pyval list \<times> pyval list \<times> pyval \<times> pyval" where
  "decision_fields s = (solutions s, solution_scores s, escalation_required s, escalation_reason s)"

text \<open>The executor of a node once its clients are connected.\<close>

definition connected_executor :: StageExecutor where
  "connected_executor = snd (setup_clients new_StageExecutor)"


text \<open>
  A solution as the evaluation is meant to give it: a dictionary whose score, 0 when
  it has none, is a number. \<open>score_of\<close> is that score, and \<open>best_of\<close> the largest value
  among the scores of a list of solutions, 0 for the empty list.
\<close>

fun scored :: "pyval \<Rightarrow> bool" where
  "scored (PDict d) = is_number (dict_get d ''score'' (PInt 0))"
| "scored v = False"

fun score_of :: "pyval \<Rightarrow> pyval" where
  "score_of (PDict d) = dict_get d ''score'' (PInt 0)"
| "score_of v = PInt 0"

definition best_of :: "pyval list \<Rightarrow> real" where
  "best_of sols = (if sols = [] then 0 else Max (set (map (\<lambda>s. num_of (score_of s)) sols)))"


text \<open>Both together: what the three ability loops leave as it was.\<close>

definition kept ::
  "AgentState \<Rightarrow> (string list \<times> string) \<times> (pyval list \<times> pyval list \<times> pyval \<times> pyval)" where
  "kept s = (stage_fields s, decision_fields s)"

text \<open>The manager after the eleven nodes have run on it, one after the other.\<close>

definition after_nodes :: "Runtime \<Rightarrow> StateManager \<Rightarrow> StateManager" where
  "after_nodes rt sm =
     snd (complete_node rt (snd (do_node rt (snd (create_node rt (snd (update_node rt
       (snd (decide_node rt (snd (retrieve_node rt (snd (wait_node rt (snd (ask_node rt
         (snd (prepare_node rt (snd (understand_node rt (snd (intake_node rt sm)))))))))))))))))))))"

text \<open>The manager after the four nodes that follow the decision.\<close>

definition after_decision :: "Runtime \<Rightarrow> StateManager \<Rightarrow> StateManager" where
  "after_decision rt sm =
     snd (complete_node rt (snd (do_node rt (snd (create_node rt (snd (update_node rt sm)))))))"

text \<open>
  A runtime of the examples: the evaluation gives two solutions, scored 60 and 85, and
  no client has another handler of its own.
\<close>

definition two_solutions :: Runtime where
  "two_solutions =
     \<lparr>handlers = (\<lambda>srv n.
        if srv = COMMON \<and> n = ''solution_evaluation''
        then Some (\<lambda>context clk.
               (Inr [(''solutions'', PList
                        [PDict [(''id'', PStr ''sol_1''), (''score'', PInt 60)],
                         PDict [(''id'', PStr ''sol_2''), (''score'', PInt 85)]]),
                     (''best_score'', PInt 85),
                     (''evaluation_method'', PStr ''relevance_based'')], clk))
        else None),
      str_other = (\<lambda>v. [])\<rparr>"

section \<open>Properties\<close>

subsection \<open>The event log\<close>

lemma log_event_log:
  "processing_log (state (log_event ev details sm)) =
     processing_log (state sm) @
       [[(''timestamp'', PStr (isoformat (clock sm 0))),
         (''stage'', PStr (current_stage (state sm))),
         (''event_type'', PStr ev),
         (''details'', PDict details)]]"
  by (simp add: log_event_def datetime_now_def)

lemma logged_once_log_event:
  "processing_log (state sm1) = processing_log (state sm) \<Longrightarrow>
   logged_once ev sm (log_event ev details sm1)"
  by (simp add: logged_once_def log_event_log event_type_of_def dict_get_def)

lemmas method_defs =
  initialize_state_def update_stage_def update_entities_def update_normalized_fields_def
  add_enriched_data_def add_kb_result_def add_solution_def set_escalation_def
  add_clarification_question_def add_human_response_def set_generated_response_def
  add_action_def

text \<open>
  C5. Each of the twelve mutation methods of the state manager, called with arguments of
  its declared types (a dictionary where the method reads keys, a str where it takes a
  length), leaves the processing log extended by exactly one entry, whose event type
  names the mutation.
\<close>

theorem mutation_logs_once:
  "logged_once ''STATE_INITIALIZED'' sm (initialize_state input_data sm)
   \<and> logged_once ''STAGE_UPDATED'' sm (update_stage stage_name sm)
   \<and> logged_once ''ENTITIES_UPDATED'' sm (snd (update_entities (PDict d) sm))
   \<and> logged_once ''FIELDS_NORMALIZED'' sm (snd (update_normalized_fields (PDict d) sm))
   \<and> logged_once ''DATA_ENRICHED'' sm (snd (add_enriched_data (PDict d) sm))
   \<and> logged_once ''KB_RESULT_ADDED'' sm (snd (add_kb_result (PDict d) sm))
   \<and> logged_once ''SOLUTION_ADDED'' sm (snd (add_solution (PDict d) score sm))
   \<and> logged_once ''ESCALATION_SET'' sm (set_escalation required reason sm)
   \<and> logged_once ''CLARIFICATION_ADDED'' sm (add_clarification_question question sm)
   \<and> logged_once ''HUMAN_RESPONSE_ADDED'' sm (snd (add_human_response (PStr r) sm))
   \<and> logged_once ''RESPONSE_GENERATED'' sm (snd (set_generated_response (PStr r) sm))
   \<and> logged_once ''ACTION_EXECUTED'' sm (add_action action sm)"
  by (simp add: method_defs Let_def datetime_now_def logged_once_log_event split: prod.splits)

subsection \<open>The input fields\<close>

lemma log_event_input_fields:
  "input_fields (state (log_event ev details sm)) = input_fields (state sm)"
  by (simp add: log_event_def datetime_now_def input_fields_def)

text \<open>
  C9. Every operation of the state manager other than \<open>initialize_state\<close> leaves the
  five input fields as they were, whatever its arguments and whether it returns or
  raises; \<open>initialize_state\<close> sets them from the input dictionary.
\<close>

theorem input_fields_frame:
  "input_fields (state (update_stage stage_name sm)) = input_fields (state sm)
   \<and> input_fields (state (snd (update_entities v sm))) = input_fields (state sm)
   \<and> input_fields (state (snd (update_normalized_fields v sm))) = input_fields (state sm)
   \<and> input_fields (state (snd (add_enriched_data v sm))) = input_fields (state sm)
   \<and> input_fields (state (snd (add_kb_result v sm))) = input_fields (state sm)
   \<and> input_fields (state (snd (add_solution v score sm))) = input_fields (state sm)
   \<and> input_fields (state (set_escalation required reason sm)) = input_fields (state sm)
   \<and> input_fields (state (add_clarification_question v sm)) = input_fields (state sm)
   \<and> input_fields (state (snd (add_human_response v sm))) = input_fields (state sm)
   \<and> input_fields (state (snd (set_generated_response v sm))) = input_fields (state sm)
   \<and> input_fields (state (add_action v sm)) = input_fields (state sm)
   \<and> input_fields (state (log_event ev details sm)) = input_fields (state sm)
   \<and> input_fields (state (snd (export_final_payload sm))) = input_fields (state sm)
   \<and> input_fields (state (initialize_state input_data sm)) =
       (dict_get input_data ''customer_name'' (PStr ''''),
        dict_get input_data ''email'' (PStr ''''),
        dict_get input_data ''query'' (PStr ''''),
        dict_get input_data ''priority'' (PStr ''medium''),
        dict_get input_data ''ticket_id'' (PStr ''''))"
  apply (simp add: method_defs export_final_payload_def Let_def datetime_now_def
      log_event_input_fields split: prod.splits sum.splits)
  apply (simp add: input_fields_def)
  done

subsection \<open>Export\<close>

lemma export_keeps_manager: "snd (export_final_payload sm) = sm"
  by (simp add: export_final_payload_def Let_def split: sum.splits)

lemma export_times_eq:
  "export_times n sm = (replicate n (fst (export_final_payload sm)), sm)"
proof (induction n)
  case 0
  show ?case by simp
next
  case (Suc n)
  have e: "export_final_payload sm = (fst (export_final_payload sm), sm)"
    using export_keeps_manager [of sm] by (metis prod.collapse)
  show ?case
    by (subst export_times.simps, subst e, simp add: Suc)
qed

text \<open>
  C6. \<open>export_final_payload\<close> is a projection of the current state: any number of
  successive calls return the same result each time and leave the manager, and with it
  the processing log, exactly as it was.
\<close>

theorem export_final_payload_pure:
  "export_times n sm = (replicate n (fst (export_final_payload sm)), sm)
   \<and> snd (export_final_payload sm) = sm
   \<and> processing_log (state (snd (export_times n sm))) = processing_log (state sm)"
  by (simp add: export_times_eq export_keeps_manager)

subsection \<open>Merging dictionaries\<close>

lemma dict_update_Cons_head:
  "dict_update ((k0, v0) # ps) m =
     (k0, (case map_of (rev m) k0 of Some x \<Rightarrow> x | None \<Rightarrow> v0))
       # dict_update ps (filter (\<lambda>kv. fst kv \<noteq> k0) m)"
proof (induction m arbitrary: v0 ps)
  case Nil
  show ?case by simp
next
  case (Cons kv m)
  show ?case
  proof (cases "fst kv = k0")
    case True
    then show ?thesis
      using Cons [of "snd kv" ps]
      by (simp add: dict_set_def map_add_def split: option.splits)
  next
    case False
    then show ?thesis
      using Cons [of v0 "dict_set ps (fst kv) (snd kv)"]
      by (simp add: dict_set_def map_add_def split: option.splits)
  qed
qed

lemma dict_update_Nil_Cons:
  "dict_update [] (kv # m) =
     (fst kv, (case map_of (rev m) (fst kv) of Some x \<Rightarrow> x | None \<Rightarrow> snd kv))
       # dict_update [] (filter (\<lambda>p. fst p \<noteq> fst kv) m)"
  using dict_update_Cons_head [of "fst kv" "snd kv" "[]" m]
  by (simp add: dict_set_def)

lemma dict_update_idem_Nil:
  "dict_update (dict_update [] m) m = dict_update [] m"
proof (induction "length m" arbitrary: m rule: less_induct)
  case less
  show ?case
  proof (cases m)
    case Nil
    then show ?thesis by simp
  next
    case (Cons kv r)
    let ?r' = "filter (\<lambda>p. fst p \<noteq> fst kv) r"
    let ?f = "case map_of (rev r) (fst kv) of Some x \<Rightarrow> x | None \<Rightarrow> snd kv"
    have len: "length ?r' < length m"
      using Cons by (simp add: le_imp_less_Suc)
    have ih: "dict_update (dict_update [] ?r') ?r' = dict_update [] ?r'"
      using less [OF len] .
    have first: "dict_update [] m = (fst kv, ?f) # dict_update [] ?r'"
      using Cons dict_update_Nil_Cons [of kv r] by simp
    have fin: "(case map_of (rev m) (fst kv) of Some x \<Rightarrow> x | None \<Rightarrow> ?f) = ?f"
      using Cons by (simp add: map_add_def split: option.splits)
    have mfilter: "filter (\<lambda>p. fst p \<noteq> fst kv) m = ?r'"
      using Cons by simp
    have "dict_update ((fst kv, ?f) # dict_update [] ?r') m
            = (fst kv, ?f) # dict_update (dict_update [] ?r') ?r'"
      using dict_update_Cons_head [of "fst kv" ?f "dict_update [] ?r'" m] fin mfilter
      by simp
    then show ?thesis using first ih by simp
  qed
qed

lemma dict_update_idem: "dict_update (dict_update d m) m = dict_update d m"
proof (induction d arbitrary: m)
  case Nil
  show ?case by (rule dict_update_idem_Nil)
next
  case (Cons p ps)
  obtain k0 v0 where p: "p = (k0, v0)" by (cases p)
  let ?m' = "filter (\<lambda>kv. fst kv \<noteq> k0) m"
  let ?f = "case map_of (rev m) k0 of Some x \<Rightarrow> x | None \<Rightarrow> v0"
  have fin: "(case map_of (rev m) k0 of Some x \<Rightarrow> x | None \<Rightarrow> ?f) = ?f"
    by (simp split: option.splits)
  have "dict_update (dict_update (p # ps) m) m
          = dict_update ((k0, ?f) # dict_update ps ?m') m"
    using p dict_update_Cons_head [of k0 v0 ps m] by simp
  also have "\<dots> = (k0, ?f) # dict_update (dict_update ps ?m') ?m'"
    using dict_update_Cons_head [of k0 ?f "dict_update ps ?m'" m] fin by simp
  also have "\<dots> = (k0, ?f) # dict_update ps ?m'"
    using Cons [of ?m'] by simp
  also have "\<dots> = dict_update (p # ps) m"
    using p dict_update_Cons_head [of k0 v0 ps m] by simp
  finally show ?case .
qed

lemma log_event_frame:
  "entities (state (log_event ev details sm)) = entities (state sm)"
  "normalized_fields (state (log_event ev details sm)) = normalized_fields (state sm)"
  "enriched_data (state (log_event ev details sm)) = enriched_data (state sm)"
  by (simp_all add: log_event_def datetime_now_def)

text \<open>
  C7. Merging the same dictionary twice with \<open>update_entities\<close>,
  \<open>update_normalized_fields\<close> or \<open>add_enriched_data\<close> raises no error and leaves
  the mapping as the first merge left it.
\<close>

theorem merge_idempotent:
  "fst (update_entities (PDict m) sm) = Inr ()
   \<and> fst (update_entities (PDict m) (snd (update_entities (PDict m) sm))) = Inr ()
   \<and> entities (state (snd (update_entities (PDict m) (snd (update_entities (PDict m) sm)))))
       = entities (state (snd (update_entities (PDict m) sm)))
   \<and> fst (update_normalized_fields (PDict m) sm) = Inr ()
   \<and> fst (update_normalized_fields (PDict m) (snd (update_normalized_fields (PDict m) sm))) = Inr ()
   \<and> normalized_fields (state (snd (update_normalized_fields (PDict m)
         (snd (update_normalized_fields (PDict m) sm)))))
       = normalized_fields (state (snd (update_normalized_fields (PDict m) sm)))
   \<and> fst (add_enriched_data (PDict m) sm) = Inr ()
   \<and> fst (add_enriched_data (PDict m) (snd (add_enriched_data (PDict m) sm))) = Inr ()
   \<and> enriched_data (state (snd (add_enriched_data (PDict m) (snd (add_enriched_data (PDict m) sm)))))
       = enriched_data (state (snd (add_enriched_data (PDict m) sm)))"
  by (simp add: update_entities_def update_normalized_fields_def add_enriched_data_def
      log_event_frame dict_update_idem)

theorem merge_idempotent_witness:
  "entities (state (snd (update_entities (PDict [(''a'', PInt 1)])
      (snd (update_entities (PDict [(''a'', PInt 1)]) (new_StateManager frozen_clock))))))
     = [(''a'', PInt 1)]"
  using merge_idempotent [of "[(''a'', PInt 1)]" "new_StateManager frozen_clock"]
  by (simp add: update_entities_def log_event_frame new_StateManager_def new_AgentState_def
      dict_set_def)

subsection \<open>Initialising again\<close>

lemma log_event_state:
  "state (log_event ev details sm) =
     (state sm)\<lparr>processing_log := processing_log (state sm) @
       [[(''timestamp'', PStr (isoformat (clock sm 0))),
         (''stage'', PStr (current_stage (state sm))),
         (''event_type'', PStr ev),
         (''details'', PDict details)]]\<rparr>"
  by (simp add: log_event_def datetime_now_def)

text \<open>
  C10. A second \<open>initialize_state\<close> on the same manager does not fail: it sets the
  five input fields from the new input (a missing key gives the default, \<open>medium\<close>
  for the priority), appends one more \<open>STATE_INITIALIZED\<close> event after the first,
  and leaves every other field of the state as it was.
\<close>

theorem initialize_state_again:
  "input_fields (state (initialize_state d2 (initialize_state d1 sm))) =
       (dict_get d2 ''customer_name'' (PStr ''''),
        dict_get d2 ''email'' (PStr ''''),
        dict_get d2 ''query'' (PStr ''''),
        dict_get d2 ''priority'' (PStr ''medium''),
        dict_get d2 ''ticket_id'' (PStr ''''))
   \<and> logged_once ''STATE_INITIALIZED'' sm (initialize_state d1 sm)
   \<and> logged_once ''STATE_INITIALIZED'' (initialize_state d1 sm)
         (initialize_state d2 (initialize_state d1 sm))
   \<and> (state (initialize_state d2 (initialize_state d1 sm)))
         \<lparr>customer_name := customer_name (state (initialize_state d1 sm)),
          email := email (state (initialize_state d1 sm)),
          query := query (state (initialize_state d1 sm)),
          priority := priority (state (initialize_state d1 sm)),
          ticket_id := ticket_id (state (initialize_state d1 sm)),
          processing_log := processing_log (state (initialize_state d1 sm))\<rparr>
       = state (initialize_state d1 sm)"
  by (simp add: initialize_state_def log_event_state input_fields_def logged_once_def
      event_type_of_def dict_get_def)

theorem initialize_state_again_witness:
  "input_fields (state (initialize_state [(''customer_name'', PStr ''Bob'')]
      (initialize_state [(''customer_name'', PStr ''Ann''), (''priority'', PStr ''high'')]
         (new_StateManager frozen_clock)))) =
     (PStr ''Bob'', PStr '''', PStr '''', PStr ''medium'', PStr '''')
   \<and> map event_type_of (processing_log (state (initialize_state [(''customer_name'', PStr ''Bob'')]
      (initialize_state [(''customer_name'', PStr ''Ann''), (''priority'', PStr ''high'')]
         (new_StateManager frozen_clock))))) =
     [PStr ''STATE_INITIALIZED'', PStr ''STATE_INITIALIZED'']"
  using initialize_state_again [of "[(''customer_name'', PStr ''Bob'')]"
      "[(''customer_name'', PStr ''Ann''), (''priority'', PStr ''high'')]"
      "new_StateManager frozen_clock"]
  by (simp add: initialize_state_def log_event_state input_fields_def
      event_type_of_def dict_get_def new_StateManager_def new_AgentState_def)

subsection \<open>The best solution score\<close>

lemma py_cmp_num:
  "py_num a = Some x \<Longrightarrow> py_num b = Some y \<Longrightarrow>
   py_cmp c a b = Inr (case c of Lt \<Rightarrow> x < y | Gt \<Rightarrow> y < x)"
  by (cases a; cases b) (auto simp: num_cmp_def)

lemma max_from_numbers:
  "is_number m \<Longrightarrow> list_all is_number xs \<Longrightarrow>
   \<exists>b. max_from m xs = Inr b \<and> b \<in> set (m # xs) \<and> num_of b = Max (set (map num_of (m # xs)))"
proof (induction xs arbitrary: m)
  case Nil
  then show ?case by simp
next
  case (Cons x xs)
  from Cons.prems obtain mx xx where mx: "py_num m = Some mx" and xx: "py_num x = Some xx"
    by (auto simp: is_number_def)
  let ?m' = "if mx < xx then x else m"
  have cmp: "py_cmp Gt x m = Inr (mx < xx)"
    using py_cmp_num [OF xx mx, of Gt] by simp
  have num: "is_number ?m'" using Cons.prems by simp
  from Cons.IH [OF num] Cons.prems
  obtain b where b: "max_from ?m' xs = Inr b" "b \<in> set (?m' # xs)"
      "num_of b = Max (set (map num_of (?m' # xs)))"
    by auto
  have nm: "num_of ?m' = max (num_of m) (num_of x)"
    using mx xx by (simp add: num_of_def)
  have "Max (set (map num_of (?m' # xs))) = Max (set (map num_of (m # x # xs)))"
  proof (cases "xs = []")
    case True
    then show ?thesis using nm by (simp add: max.commute)
  next
    case False
    then have ne: "num_of ` set xs \<noteq> {}" by simp
    have fin: "finite (num_of ` set xs)" by simp
    show ?thesis
      using nm ne fin by (simp add: max.assoc max.commute max.left_commute)
  qed
  then show ?case using b cmp by (auto split: if_splits)
qed

text \<open>
  C3. When the recorded solution scores are numbers, the export succeeds and its
  \<open>best_solution_score\<close> is the int 0 for an empty list and otherwise one of the
  recorded scores, whose value is the maximum of their values.
\<close>

theorem best_solution_score_is_max:
  assumes "list_all is_number (solution_scores (state sm))"
  shows "\<exists>p best. fst (export_final_payload sm) = Inr p
           \<and> payload_field p ''decisions'' ''best_solution_score'' = Some best
           \<and> num_of best =
               (if solution_scores (state sm) = [] then 0
                else Max (set (map num_of (solution_scores (state sm)))))
           \<and> (if solution_scores (state sm) = [] then best = PInt 0
                else best \<in> set (solution_scores (state sm)))"
proof (cases "solution_scores (state sm)")
  case Nil
  then show ?thesis
    by (simp add: export_final_payload_def max_or_zero_def Let_def payload_field_def num_of_def)
next
  case (Cons x xs)
  with assms have "is_number x" "list_all is_number xs" by simp_all
  from max_from_numbers [OF this]
  obtain b where b: "max_from x xs = Inr b" "b \<in> set (x # xs)"
      "num_of b = Max (set (map num_of (x # xs)))"
    by blast
  then show ?thesis using Cons
    by (simp add: export_final_payload_def max_or_zero_def Let_def payload_field_def)
qed

theorem best_solution_score_is_max_witness:
  "list_all is_number (solution_scores (state
        (snd (add_solution (PDict [(''score'', PInt 85)]) (PInt 85)
          (snd (add_solution (PDict [(''score'', PInt 60)]) (PInt 60)
             (new_StateManager frozen_clock)))))))
   \<and> payload_field
     (projr (fst (export_final_payload
        (snd (add_solution (PDict [(''score'', PInt 85)]) (PInt 85)
          (snd (add_solution (PDict [(''score'', PInt 60)]) (PInt 60)
             (new_StateManager frozen_clock))))))))
     ''decisions'' ''best_solution_score'' = Some (PInt 85)"
proof -
  let ?sm = "snd (add_solution (PDict [(''score'', PInt 85)]) (PInt 85)
          (snd (add_solution (PDict [(''score'', PInt 60)]) (PInt 60)
             (new_StateManager frozen_clock))))"
  have scores: "solution_scores (state ?sm) = [PInt 60, PInt 85]"
    by (simp add: add_solution_def log_event_state new_StateManager_def new_AgentState_def)
  have h: "list_all is_number (solution_scores (state ?sm))"
    by (simp add: scores is_number_def)
  from best_solution_score_is_max [OF h] scores
  obtain p best where p: "fst (export_final_payload ?sm) = Inr p"
      "payload_field p ''decisions'' ''best_solution_score'' = Some best"
      "best \<in> set [PInt 60, PInt 85]" "num_of best = Max (set (map num_of [PInt 60, PInt 85]))"
    by auto
  have "best = PInt 85" using p(3,4) by (auto simp: num_of_def)
  then show ?thesis using h p by simp
qed

subsection \<open>Client errors\<close>



subsection \<open>Calls a client turns down\<close>




subsection \<open>Exceptions of an ability call in a stage\<close>



lemma connected_clients:
  "get_client connected_executor COMMON = \<lparr>server_type = COMMON, connected = True\<rparr>"
  "get_client connected_executor ATLAS = \<lparr>server_type = ATLAS, connected = True\<rparr>"
  by (simp_all add: connected_executor_def setup_clients_def new_StageExecutor_def
      new_MCPClient_def connect_def get_client_def)

lemma run_node_connected: "run_node rt n sm = execute_stage rt connected_executor n sm"
  by (simp add: run_node_def connected_executor_def split: prod.splits)






subsection \<open>What a stage leaves as it was\<close>

lemma execute_ability_state:
  "state (snd (execute_ability rt c ability context sm)) = state sm"
  by (simp add: execute_ability_def run_handler_def split: option.splits prod.splits)

lemma log_event_fields:
  "stage_fields (state (log_event ev details sm)) = stage_fields (state sm)"
  "decision_fields (state (log_event ev details sm)) = decision_fields (state sm)"
  by (simp_all add: log_event_state stage_fields_def decision_fields_def)

lemma setters_stage_fields:
  "stage_fields (state (snd (update_entities v sm))) = stage_fields (state sm)"
  "stage_fields (state (snd (update_normalized_fields v sm))) = stage_fields (state sm)"
  "stage_fields (state (snd (add_enriched_data v sm))) = stage_fields (state sm)"
  "stage_fields (state (snd (add_kb_result v sm))) = stage_fields (state sm)"
  "stage_fields (state (snd (add_human_response v sm))) = stage_fields (state sm)"
  "stage_fields (state (snd (set_generated_response v sm))) = stage_fields (state sm)"
  "stage_fields (state (add_clarification_question v sm)) = stage_fields (state sm)"
  "stage_fields (state (snd (add_solution v w sm))) = stage_fields (state sm)"
  "stage_fields (state (set_escalation v w sm)) = stage_fields (state sm)"
  "stage_fields (state (snd (export_final_payload sm))) = stage_fields (state sm)"
  by (simp_all add: update_entities_def update_normalized_fields_def add_enriched_data_def
      add_kb_result_def add_human_response_def set_generated_response_def
      add_clarification_question_def add_solution_def set_escalation_def
      export_keeps_manager log_event_fields Let_def split: sum.splits)
     (simp_all add: stage_fields_def)

lemma setters_decision_fields:
  "decision_fields (state (snd (update_entities v sm))) = decision_fields (state sm)"
  "decision_fields (state (snd (update_normalized_fields v sm))) = decision_fields (state sm)"
  "decision_fields (state (snd (add_enriched_data v sm))) = decision_fields (state sm)"
  "decision_fields (state (snd (add_kb_result v sm))) = decision_fields (state sm)"
  "decision_fields (state (snd (add_human_response v sm))) = decision_fields (state sm)"
  "decision_fields (state (snd (set_generated_response v sm))) = decision_fields (state sm)"
  "decision_fields (state (add_clarification_question v sm)) = decision_fields (state sm)"
  "decision_fields (state (snd (export_final_payload sm))) = decision_fields (state sm)"
  by (simp_all add: update_entities_def update_normalized_fields_def add_enriched_data_def
      add_kb_result_def add_human_response_def set_generated_response_def
      add_clarification_question_def
      export_keeps_manager log_event_fields Let_def split: sum.splits)
     (simp_all add: decision_fields_def)

lemma for_each_keeps:
  assumes "\<And>x m. g (state (snd (f x m))) = g (state m)"
  shows "g (state (snd (for_each f xs sm))) = g (state sm)"
proof (induction xs arbitrary: sm)
  case Nil
  show ?case by simp
next
  case (Cons x xs)
  obtain r sm1 where r: "f x sm = (r, sm1)" by (cases "f x sm")
  have k: "g (state sm1) = g (state sm)" using assms [of x sm] r by simp
  show ?case using r k Cons [of sm1] by (cases r) simp_all
qed

lemma for_in_keeps:
  assumes "\<And>x m. g (state (snd (f x m))) = g (state m)"
  shows "g (state (snd (for_in v f sm))) = g (state sm)"
  using for_each_keeps [of g f, OF assms]
  by (simp add: for_in_def split: sum.splits)

lemma update_state_from_result_keeps:
  "stage_fields (state (snd (update_state_from_result ability result sm))) = stage_fields (state sm)"
  "decision_fields (state (snd (update_state_from_result ability result sm)))
     = decision_fields (state sm)"
  by (simp_all add: update_state_from_result_def setters_stage_fields setters_decision_fields
      for_in_keeps ok_def Let_def)

lemma kept_simps:
  "kept (state (snd (update_state_from_result ability result sm))) = kept (state sm)"
  "kept (state (snd (execute_ability rt c ability context sm))) = kept (state sm)"
  "kept (state (snd (export_final_payload sm))) = kept (state sm)"
  "kept (state (add_clarification_question v sm)) = kept (state sm)"
  by (simp_all add: kept_def update_state_from_result_keeps execute_ability_state
      setters_stage_fields setters_decision_fields)

lemma deterministic_loop_keeps:
  "kept (state (snd (deterministic_loop rt self abl results ctx sm))) = kept (state sm)"
proof (induction abl arbitrary: results ctx sm)
  case Nil
  show ?case by simp
next
  case (Cons a rest)
  obtain r1 sm1 where r1: "execute_ability rt (get_client self (server a)) a ctx sm = (r1, sm1)"
    by (cases "execute_ability rt (get_client self (server a)) a ctx sm")
  have k1: "kept (state sm1) = kept (state sm)"
    using kept_simps(2) [of rt "get_client self (server a)" a ctx sm] r1 by simp
  show ?case
  proof (cases r1)
    case (Inl e)
    then show ?thesis using r1 k1 Cons by simp
  next
    case (Inr result)
    obtain r2 sm2 where r2: "update_state_from_result a result sm1 = (r2, sm2)"
      by (cases "update_state_from_result a result sm1")
    have k2: "kept (state sm2) = kept (state sm1)"
      using kept_simps(1) [of a result sm1] r2 by simp
    show ?thesis using Inr r1 r2 k1 k2 Cons by (cases r2) simp_all
  qed
qed

lemma payload_loop_keeps:
  "kept (state (snd (payload_loop rt self abl results ctx sm))) = kept (state sm)"
proof (induction abl arbitrary: results ctx sm)
  case Nil
  show ?case by simp
next
  case (Cons a rest)
  obtain r1 sm1 where r1: "execute_ability rt (get_client self (server a)) a ctx sm = (r1, sm1)"
    by (cases "execute_ability rt (get_client self (server a)) a ctx sm")
  have k1: "kept (state sm1) = kept (state sm)"
    using kept_simps(2) [of rt "get_client self (server a)" a ctx sm] r1 by simp
  show ?case
  proof (cases r1)
    case (Inl e)
    then show ?thesis using r1 k1 Cons by simp
  next
    case (Inr result)
    obtain r2 sm2 where r2: "export_final_payload sm1 = (r2, sm2)"
      by (cases "export_final_payload sm1")
    have k2: "kept (state sm2) = kept (state sm1)"
      using kept_simps(3) [of sm1] r2 by simp
    show ?thesis using Inr r1 r2 k1 k2 Cons by (cases r2) simp_all
  qed
qed

lemma human_loop_keeps:
  "kept (state (snd (human_loop rt self abl results ctx sm))) = kept (state sm)"
proof (induction abl arbitrary: results ctx sm)
  case Nil
  show ?case by simp
next
  case (Cons a rest)
  obtain r1 sm1 where r1: "execute_ability rt (get_client self (server a)) a ctx sm = (r1, sm1)"
    by (cases "execute_ability rt (get_client self (server a)) a ctx sm")
  have k1: "kept (state sm1) = kept (state sm)"
    using kept_simps(2) [of rt "get_client self (server a)" a ctx sm] r1 by simp
  show ?case
  proof (cases r1)
    case (Inl e)
    then show ?thesis using r1 k1 Cons by simp
  next
    case (Inr result)
    let ?f = "\<lambda>question m. (Inr (), add_clarification_question question m)"
    obtain r2 sm2 where r2:
        "for_in (dict_get result ''clarification_questions'' (PList [])) ?f sm1 = (r2, sm2)"
      by (cases "for_in (dict_get result ''clarification_questions'' (PList [])) ?f sm1")
    have "kept (state (snd (for_in (dict_get result ''clarification_questions'' (PList [])) ?f sm1)))
            = kept (state sm1)"
      by (rule for_in_keeps) (simp add: kept_simps)
    then have k2: "kept (state sm2) = kept (state sm1)" using r2 by simp
    show ?thesis using Inr r1 r2 k1 k2 Cons by (cases r2) simp_all
  qed
qed

lemma and_then_keeps:
  assumes "\<And>m. g (state (snd (p m))) = g (state m)"
    and "\<And>x m. g (state (snd (f x m))) = g (state m)"
  shows "g (state (snd (and_then p f sm))) = g (state sm)"
proof -
  obtain r sm1 where r: "p sm = (r, sm1)" by (cases "p sm")
  have k: "g (state sm1) = g (state sm)" using assms(1) [of sm] r by simp
  show ?thesis using r k assms(2) [of _ sm1] by (cases r) (simp_all add: and_then_def)
qed

lemma add_solution_step_keeps:
  "stage_fields (state (snd (case py_get solution ''score'' (PInt 0) of
        Inl e \<Rightarrow> (Inl e, m) | Inr score \<Rightarrow> add_solution solution score m)))
     = stage_fields (state m)"
  by (simp add: setters_stage_fields split: sum.splits)

lemma decide_evaluate_keeps:
  "stage_fields (state (snd (decide_evaluate rt self cfg ctx sm))) = stage_fields (state sm)"
proof (cases "find (\<lambda>a. Ability.name a = ''solution_evaluation'') (abilities cfg)")
  case None
  then show ?thesis by (simp add: decide_evaluate_def ok_def)
next
  case (Some a)
  show ?thesis
    unfolding decide_evaluate_def Some option.case
    apply (rule and_then_keeps [where g = stage_fields])
     apply (simp add: execute_ability_state)
    apply (rule and_then_keeps [where g = stage_fields])
     apply (rule for_in_keeps [where g = stage_fields])
     apply (rule add_solution_step_keeps)
    apply simp
    done
qed

lemma decide_escalate_keeps:
  "stage_fields (state (snd (decide_escalate rt self cfg results ctx sm))) = stage_fields (state sm)"
proof (cases "find (\<lambda>a. Ability.name a = ''escalation_decision'') (abilities cfg)")
  case None
  then show ?thesis by (simp add: decide_escalate_def ok_def)
next
  case (Some a)
  show ?thesis
    unfolding decide_escalate_def Some option.case
    apply (rule and_then_keeps [where g = stage_fields])
     apply (simp add: execute_ability_state)
    apply (simp add: Let_def setters_stage_fields split: sum.splits)
    done
qed

lemma decide_update_keeps:
  "stage_fields (state (snd (decide_update rt self cfg results ctx sm))) = stage_fields (state sm)"
proof (cases "find (\<lambda>a. Ability.name a = ''update_payload'') (abilities cfg)")
  case None
  then show ?thesis by (simp add: decide_update_def ok_def)
next
  case (Some a)
  show ?thesis
    unfolding decide_update_def Some option.case
    apply (rule and_then_keeps [where g = stage_fields])
     apply (simp add: execute_ability_state)
    apply (simp add: ok_def)
    done
qed

lemma execute_non_deterministic_stage_keeps:
  "stage_fields (state (snd (execute_non_deterministic_stage rt self cfg sm)))
     = stage_fields (state sm)"
proof (cases "name cfg = ''DECIDE''")
  case False
  then show ?thesis by (simp add: execute_non_deterministic_stage_def)
next
  case True
  show ?thesis
    unfolding execute_non_deterministic_stage_def
    apply (simp only: True simp_thms if_True)
    apply (rule and_then_keeps [where g = stage_fields])
     apply (rule decide_evaluate_keeps)
    apply (rule and_then_keeps [where g = stage_fields])
     apply (rule decide_escalate_keeps)
    apply (rule and_then_keeps [where g = stage_fields])
     apply (rule decide_update_keeps)
    apply (simp add: ok_def)
    done
qed

lemma loop_stages_keep:
  "kept (state (snd (execute_payload_stage rt self cfg sm))) = kept (state sm)"
  "kept (state (snd (execute_deterministic_stage rt self cfg sm))) = kept (state sm)"
  "kept (state (snd (execute_human_stage rt self cfg sm))) = kept (state sm)"
proof -
  let ?c = "build_context (get_current_state sm)"
  show "kept (state (snd (execute_payload_stage rt self cfg sm))) = kept (state sm)"
    using payload_loop_keeps [of rt self "abilities cfg" "[]" ?c sm]
    by (cases "payload_loop rt self (abilities cfg) [] ?c sm")
       (simp add: execute_payload_stage_def split: sum.splits)
  show "kept (state (snd (execute_deterministic_stage rt self cfg sm))) = kept (state sm)"
    using deterministic_loop_keeps [of rt self "abilities cfg" "[]" ?c sm]
    by (cases "deterministic_loop rt self (abilities cfg) [] ?c sm")
       (simp add: execute_deterministic_stage_def split: sum.splits)
  show "kept (state (snd (execute_human_stage rt self cfg sm))) = kept (state sm)"
    using human_loop_keeps [of rt self "abilities cfg" "[]" ?c sm]
    by (cases "human_loop rt self (abilities cfg) [] ?c sm")
       (simp add: execute_human_stage_def split: sum.splits)
qed

lemma execute_stage_stage_fields:
  assumes "find (\<lambda>s. name s = n) STAGES = Some cfg"
  shows "stage_fields (state (snd (execute_stage rt self n sm)))
           = stage_fields (state (update_stage n sm))"
  using loop_stages_keep [of rt self cfg "update_stage n sm"]
    execute_non_deterministic_stage_keeps [of rt self cfg "update_stage n sm"]
  by (cases "mode cfg") (simp_all add: execute_stage_def assms Let_def kept_def)

lemma update_stage_stage_fields:
  "stage_fields (state (update_stage n sm)) =
     (if current_stage (state sm) \<noteq> []
      then stage_history (state sm) @ [current_stage (state sm)]
      else stage_history (state sm), n)"
  by (simp add: update_stage_def Let_def datetime_now_def log_event_state stage_fields_def)

lemma stage_found:
  "n \<in> set [''INTAKE'', ''UNDERSTAND'', ''PREPARE'', ''ASK'', ''WAIT'', ''RETRIEVE'',
             ''DECIDE'', ''UPDATE'', ''CREATE'', ''DO'', ''COMPLETE'']
   \<Longrightarrow> \<exists>cfg. find (\<lambda>s. name s = n) STAGES = Some cfg"
  by (auto simp: STAGES_def)

lemma run_node_stage_fields:
  assumes "n \<in> set [''INTAKE'', ''UNDERSTAND'', ''PREPARE'', ''ASK'', ''WAIT'', ''RETRIEVE'',
             ''DECIDE'', ''UPDATE'', ''CREATE'', ''DO'', ''COMPLETE'']"
  shows "current_stage (state (snd (run_node rt n sm))) = n"
    and "stage_history (state (snd (run_node rt n sm))) =
          (if current_stage (state sm) \<noteq> []
           then stage_history (state sm) @ [current_stage (state sm)]
           else stage_history (state sm))"
proof -
  obtain cfg where c: "find (\<lambda>s. name s = n) STAGES = Some cfg"
    using stage_found [OF assms] by blast
  have "stage_fields (state (snd (run_node rt n sm))) =
          (if current_stage (state sm) \<noteq> []
           then stage_history (state sm) @ [current_stage (state sm)]
           else stage_history (state sm), n)"
    using execute_stage_stage_fields [OF c, of rt connected_executor sm]
    by (simp add: run_node_connected update_stage_stage_fields)
  then show "current_stage (state (snd (run_node rt n sm))) = n"
    and "stage_history (state (snd (run_node rt n sm))) =
          (if current_stage (state sm) \<noteq> []
           then stage_history (state sm) @ [current_stage (state sm)]
           else stage_history (state sm))"
    by (simp_all add: stage_fields_def)
qed

subsection \<open>The run of the graph\<close>

lemma wrapped_node_snd: "snd (wrapped_node rt f gs sm) = snd (f rt sm)"
  by (simp add: wrapped_node_def split: prod.splits sum.splits)

lemma run_graph_step:
  assumes "map_of graph_nodes n = Some f" and "\<And>m. next_node n m = Some n'" and "k' = Suc k"
  shows "\<exists>gs'. run_graph rt k' n gs sm = run_graph rt k n' gs' (snd (f rt sm))"
proof -
  obtain gs1 sm1 where w: "wrapped_node rt f gs sm = (gs1, sm1)"
    by (cases "wrapped_node rt f gs sm")
  have "sm1 = snd (f rt sm)" using wrapped_node_snd [of rt f gs sm] w by simp
  then show ?thesis using assms w by auto
qed

lemma run_graph_last:
  assumes "map_of graph_nodes n = Some f" and "\<And>m. next_node n m = None" and "k' = Suc k"
  shows "\<exists>gs'. run_graph rt k' n gs sm = (Inr gs', snd (f rt sm))"
proof -
  obtain gs1 sm1 where w: "wrapped_node rt f gs sm = (gs1, sm1)"
    by (cases "wrapped_node rt f gs sm")
  have "sm1 = snd (f rt sm)" using wrapped_node_snd [of rt f gs sm] w by simp
  then show ?thesis using assms w by auto
qed

lemma graph_node_facts:
  "map_of graph_nodes ''intake'' = Some intake_node"
  "map_of graph_nodes ''understand'' = Some understand_node"
  "map_of graph_nodes ''prepare'' = Some prepare_node"
  "map_of graph_nodes ''ask'' = Some ask_node"
  "map_of graph_nodes ''wait'' = Some wait_node"
  "map_of graph_nodes ''retrieve'' = Some retrieve_node"
  "map_of graph_nodes ''decide'' = Some decide_node"
  "map_of graph_nodes ''update'' = Some update_node"
  "map_of graph_nodes ''create'' = Some create_node"
  "map_of graph_nodes ''do'' = Some do_node"
  "map_of graph_nodes ''complete'' = Some complete_node"
  by (simp_all add: graph_nodes_def)

lemma graph_edge_facts:
  "next_node ''intake'' m = Some ''understand''"
  "next_node ''understand'' m = Some ''prepare''"
  "next_node ''prepare'' m = Some ''ask''"
  "next_node ''ask'' m = Some ''wait''"
  "next_node ''wait'' m = Some ''retrieve''"
  "next_node ''retrieve'' m = Some ''decide''"
  "next_node ''decide'' m = Some ''update''"
  "next_node ''update'' m = Some ''create''"
  "next_node ''create'' m = Some ''do''"
  "next_node ''do'' m = Some ''complete''"
  "next_node ''complete'' m = None"
  by (simp_all add: next_node_def graph_edges_def should_escalate_def)

lemma ainvoke_runs_all:
  "\<exists>gs'. ainvoke rt gs sm = (Inr gs', after_nodes rt sm)"
proof -
  obtain g1 where e1: "run_graph rt 25 ''intake'' gs sm
      = run_graph rt 24 ''understand'' g1 (snd (intake_node rt sm))"
    using run_graph_step [OF graph_node_facts(1) graph_edge_facts(1), of 25 24 rt gs sm]
    by auto
  obtain g2 where e2: "run_graph rt 24 ''understand'' g1 (snd (intake_node rt sm))
      = run_graph rt 23 ''prepare'' g2 (snd (understand_node rt (snd (intake_node rt sm))))"
    using run_graph_step [OF graph_node_facts(2) graph_edge_facts(2), of 24 23 rt g1]
    by auto
  let ?s2 = "snd (understand_node rt (snd (intake_node rt sm)))"
  obtain g3 where e3: "run_graph rt 23 ''prepare'' g2 ?s2
      = run_graph rt 22 ''ask'' g3 (snd (prepare_node rt ?s2))"
    using run_graph_step [OF graph_node_facts(3) graph_edge_facts(3), of 23 22 rt g2]
    by auto
  let ?s3 = "snd (prepare_node rt ?s2)"
  obtain g4 where e4: "run_graph rt 22 ''ask'' g3 ?s3
      = run_graph rt 21 ''wait'' g4 (snd (ask_node rt ?s3))"
    using run_graph_step [OF graph_node_facts(4) graph_edge_facts(4), of 22 21 rt g3]
    by auto
  let ?s4 = "snd (ask_node rt ?s3)"
  obtain g5 where e5: "run_graph rt 21 ''wait'' g4 ?s4
      = run_graph rt 20 ''retrieve'' g5 (snd (wait_node rt ?s4))"
    using run_graph_step [OF graph_node_facts(5) graph_edge_facts(5), of 21 20 rt g4]
    by auto
  let ?s5 = "snd (wait_node rt ?s4)"
  obtain g6 where e6: "run_graph rt 20 ''retrieve'' g5 ?s5
      = run_graph rt 19 ''decide'' g6 (snd (retrieve_node rt ?s5))"
    using run_graph_step [OF graph_node_facts(6) graph_edge_facts(6), of 20 19 rt g5]
    by auto
  let ?s6 = "snd (retrieve_node rt ?s5)"
  obtain g7 where e7: "run_graph rt 19 ''decide'' g6 ?s6
      = run_graph rt 18 ''update'' g7 (snd (decide_node rt ?s6))"
    using run_graph_step [OF graph_node_facts(7) graph_edge_facts(7), of 19 18 rt g6]
    by auto
  let ?s7 = "snd (decide_node rt ?s6)"
  obtain g8 where e8: "run_graph rt 18 ''update'' g7 ?s7
      = run_graph rt 17 ''create'' g8 (snd (update_node rt ?s7))"
    using run_graph_step [OF graph_node_facts(8) graph_edge_facts(8), of 18 17 rt g7]
    by auto
  let ?s8 = "snd (update_node rt ?s7)"
  obtain g9 where e9: "run_graph rt 17 ''create'' g8 ?s8
      = run_graph rt 16 ''do'' g9 (snd (create_node rt ?s8))"
    using run_graph_step [OF graph_node_facts(9) graph_edge_facts(9), of 17 16 rt g8]
    by auto
  let ?s9 = "snd (create_node rt ?s8)"
  obtain g10 where e10: "run_graph rt 16 ''do'' g9 ?s9
      = run_graph rt 15 ''complete'' g10 (snd (do_node rt ?s9))"
    using run_graph_step [OF graph_node_facts(10) graph_edge_facts(10), of 16 15 rt g9]
    by auto
  let ?s10 = "snd (do_node rt ?s9)"
  obtain g11 where e11: "run_graph rt 15 ''complete'' g10 ?s10
      = (Inr g11, snd (complete_node rt ?s10))"
    using run_graph_last [OF graph_node_facts(11) graph_edge_facts(11), of 15 14 rt g10]
    by auto
  have "ainvoke rt gs sm = (Inr g11, after_nodes rt sm)"
    unfolding ainvoke_def entry_point_def after_nodes_def
    by (simp only: e1 e2 e3 e4 e5 e6 e7 e8 e9 e10 e11)
  then show ?thesis by blast
qed

lemmas node_defs = intake_node_def understand_node_def prepare_node_def ask_node_def
  wait_node_def retrieve_node_def decide_node_def update_node_def create_node_def do_node_def
  complete_node_def

lemma after_nodes_stage_fields:
  assumes "current_stage (state sm) \<noteq> []"
  shows "stage_fields (state (after_nodes rt sm)) =
     (stage_history (state sm) @
        [current_stage (state sm), ''INTAKE'', ''UNDERSTAND'', ''PREPARE'', ''ASK'', ''WAIT'',
         ''RETRIEVE'', ''DECIDE'', ''UPDATE'', ''CREATE'', ''DO''], ''COMPLETE'')"
  using assms
  by (simp add: after_nodes_def node_defs stage_fields_def run_node_stage_fields)

subsection \<open>The stages a request goes through\<close>

lemma clock_read_state: "state (snd (datetime_now sm)) = state sm"
  by (simp add: datetime_now_def)

lemma initialize_state_stage_fields:
  "stage_fields (state (initialize_state d sm)) = stage_fields (state sm)"
  by (simp add: initialize_state_def log_event_state stage_fields_def)

lemma error_payload_parts:
  "state (snd (error_payload e d sm)) = state sm"
  "map_of (fst (error_payload e d sm)) ''status'' = Some (PStr ''failed'')"
  by (simp_all add: error_payload_def datetime_now_def)

lemma export_stages_completed:
  "export_final_payload sm = (Inr fp, sm1) \<Longrightarrow>
   payload_field fp ''processing'' ''stages_completed''
     = Some (PList (map PStr (stage_history (state sm) @ [current_stage (state sm)])))"
  by (auto simp: export_final_payload_def Let_def payload_field_def split: sum.splits)

lemma process_request_unfolded:
  "\<exists>gs' sm3. stage_fields (state sm3) = stage_fields (state sm)
      \<and> process_request rt d sm =
          (case export_final_payload (after_nodes rt sm3) of
             (Inl e, sm5) \<Rightarrow> error_payload e d sm5
           | (Inr fp, sm5) \<Rightarrow> (dict_set gs' ''final_payload'' (PDict fp), sm5))"
proof -
  let ?sm1 = "initialize_state d sm"
  let ?sm3 = "snd (datetime_now (snd (datetime_now ?sm1)))"
  let ?gs = "[(''request_id'', dict_get d ''ticket_id''
                 (PStr (''req_'' @ strftime (fst (datetime_now ?sm1))))),
              (''input_data'', PDict d),
              (''processing_started'',
                 PStr (isoformat (fst (datetime_now (snd (datetime_now ?sm1))))))]"
  have "\<forall>x. \<exists>gs'. ainvoke rt (fst x) (snd x) = (Inr gs', after_nodes rt (snd x))"
    using ainvoke_runs_all by blast
  then obtain F where F: "\<forall>x. ainvoke rt (fst x) (snd x) = (Inr (F x), after_nodes rt (snd x))"
    using choice [of "\<lambda>x gs'. ainvoke rt (fst x) (snd x) = (Inr gs', after_nodes rt (snd x))"]
    by blast
  have F': "ainvoke rt gs m = (Inr (F (gs, m)), after_nodes rt m)" for gs m
    using F by (metis fst_conv snd_conv)
  have f: "stage_fields (state ?sm3) = stage_fields (state sm)"
    by (simp add: clock_read_state initialize_state_stage_fields)
  have "\<exists>gs'. process_request rt d sm =
          (case export_final_payload (after_nodes rt ?sm3) of
             (Inl e, sm5) \<Rightarrow> error_payload e d sm5
           | (Inr fp, sm5) \<Rightarrow> (dict_set gs' ''final_payload'' (PDict fp), sm5))"
    by (rule exI) (simp add: process_request_def Let_def case_prod_beta F')
  with f show ?thesis by blast
qed

text \<open>
  C1 does not hold of the code. A new state has \<open>INTAKE\<close> as its current stage already,
  and \<open>update_stage\<close> pushes a current stage that is not empty onto the history, so the
  intake node records \<open>INTAKE\<close> a second time. For every runtime, input and clock, a
  request processed on a new agent ends with the history \<open>INTAKE\<close>, \<open>INTAKE\<close>,
  \<open>UNDERSTAND\<close>, ..., \<open>DO\<close> and the current stage \<open>COMPLETE\<close>; the answer is the
  error payload (when the export raises) or carries a final payload whose
  \<open>stages_completed\<close> has these twelve entries.
\<close>

theorem stages_completed_repeats_intake:
  "stage_fields (state (snd (process_request rt input_data (new_StateManager clk))))
     = ([''INTAKE'', ''INTAKE'', ''UNDERSTAND'', ''PREPARE'', ''ASK'', ''WAIT'', ''RETRIEVE'',
         ''DECIDE'', ''UPDATE'', ''CREATE'', ''DO''], ''COMPLETE'')
   \<and> (map_of (fst (process_request rt input_data (new_StateManager clk))) ''status''
         = Some (PStr ''failed'')
      \<or> (\<exists>fp. map_of (fst (process_request rt input_data (new_StateManager clk)))
                 ''final_payload'' = Some (PDict fp)
             \<and> payload_field fp ''processing'' ''stages_completed''
                 = Some (PList (map PStr
                     [''INTAKE'', ''INTAKE'', ''UNDERSTAND'', ''PREPARE'', ''ASK'', ''WAIT'',
                      ''RETRIEVE'', ''DECIDE'', ''UPDATE'', ''CREATE'', ''DO'', ''COMPLETE'']))))"
proof -
  let ?sm = "new_StateManager clk"
  obtain gs' sm3 where f: "stage_fields (state sm3) = stage_fields (state ?sm)"
    and p: "process_request rt input_data ?sm =
          (case export_final_payload (after_nodes rt sm3) of
             (Inl e, sm5) \<Rightarrow> error_payload e input_data sm5
           | (Inr fp, sm5) \<Rightarrow> (dict_set gs' ''final_payload'' (PDict fp), sm5))"
    using process_request_unfolded [where rt = rt and sm = ?sm and d = input_data] by blast
  have s0: "stage_history (state sm3) = []" "current_stage (state sm3) = ''INTAKE''"
    using f by (simp_all add: stage_fields_def new_StateManager_def new_AgentState_def)
  have a: "stage_fields (state (after_nodes rt sm3)) =
     ([''INTAKE'', ''INTAKE'', ''UNDERSTAND'', ''PREPARE'', ''ASK'', ''WAIT'', ''RETRIEVE'',
       ''DECIDE'', ''UPDATE'', ''CREATE'', ''DO''], ''COMPLETE'')"
    using after_nodes_stage_fields [of sm3 rt] s0 by simp
  obtain r sm5 where x: "export_final_payload (after_nodes rt sm3) = (r, sm5)"
    by (cases "export_final_payload (after_nodes rt sm3)")
  have sm5: "sm5 = after_nodes rt sm3"
    using export_keeps_manager [of "after_nodes rt sm3"] x by simp
  show ?thesis
  proof (cases r)
    case (Inl e)
    then show ?thesis using p x sm5 a by (simp add: error_payload_parts)
  next
    case (Inr fp)
    have "payload_field fp ''processing'' ''stages_completed''
            = Some (PList (map PStr
                [''INTAKE'', ''INTAKE'', ''UNDERSTAND'', ''PREPARE'', ''ASK'', ''WAIT'',
                 ''RETRIEVE'', ''DECIDE'', ''UPDATE'', ''CREATE'', ''DO'', ''COMPLETE'']))"
      using export_stages_completed [of "after_nodes rt sm3" fp sm5] x Inr a
      by (simp add: stage_fields_def)
    moreover have "map_of (dict_set gs' ''final_payload'' (PDict fp)) ''final_payload''
            = Some (PDict fp)"
      by (simp add: dict_set_def update_conv')
    ultimately show ?thesis using p x Inr sm5 a by simp
  qed
qed

subsection \<open>The escalation decision\<close>

lemma scored_cases: "scored s \<Longrightarrow> \<exists>d. s = PDict d"
  by (cases s) simp_all

lemma scored_number: "scored s \<Longrightarrow> is_number (score_of s)"
  by (cases s) simp_all

lemma scored_py_get:
  "scored s \<Longrightarrow> py_get s ''score'' (PInt 0) = Inr (score_of s)"
  "scored s \<Longrightarrow> \<exists>i. py_get s ''id'' (PStr ''unknown'') = Inr i"
  by (cases s; simp)+

lemma get_scores_scored:
  "list_all scored sols \<Longrightarrow> get_scores sols = Inr (map score_of sols)"
  by (induction sols) (simp_all add: scored_py_get)

lemma best_of_scores:
  "best_of sols = (if sols = [] then 0 else Max (set (map num_of (map score_of sols))))"
  by (simp add: best_of_def comp_def)

lemma best_score_of_scored:
  assumes "list_all scored sols"
  shows "\<exists>b. best_score_of (PList sols) = Inr b \<and> is_number b \<and> num_of b = best_of sols
            \<and> max_or_zero (map score_of sols) = Inr b"
proof (cases sols)
  case Nil
  then show ?thesis
    by (simp add: best_score_of_def best_of_def is_number_def num_of_def max_or_zero_def)
next
  case (Cons s ss)
  have nums: "is_number (score_of s)" "list_all is_number (map score_of ss)"
    using assms Cons by (simp_all add: scored_number list_all_iff)
  from max_from_numbers [OF nums]
  obtain b where b: "max_from (score_of s) (map score_of ss) = Inr b"
      "b \<in> set (score_of s # map score_of ss)"
      "num_of b = Max (set (map num_of (score_of s # map score_of ss)))"
    by blast
  have nb: "is_number b" using b(2) nums by (auto simp: list_all_iff)
  have gs: "get_scores sols = Inr (map score_of sols)"
    using assms by (rule get_scores_scored)
  show ?thesis
    using b nb gs Cons
    by (simp add: best_score_of_def py_max_def best_of_scores max_or_zero_def)
qed

lemma py_cmp_Lt_number:
  "is_number b \<Longrightarrow> py_cmp Lt b (PInt n) = Inr (num_of b < real_of_int n)"
  using py_cmp_num [of b _ "PInt n" "real_of_int n" Lt]
  by (auto simp: is_number_def num_of_def)

lemma handle_escalation_decision_scored:
  assumes "dict_get context ''solutions'' (PList []) = PList sols"
    and "list_all scored sols"
  shows "\<exists>b. is_number b \<and> num_of b = best_of sols
           \<and> max_or_zero (map score_of sols) = Inr b
           \<and> handle_escalation_decision rt context clk =
               (Inr [(''escalation_decision'', PDict
                        [(''escalation_required'', PBool (best_of sols < 90)),
                         (''reason'', PStr
                            (if best_of sols < 90
                             then ''Best solution score ('' @ py_str rt b
                                    @ '') below threshold (90)''
                             else ''Sufficient solution found'')),
                         (''assigned_to'', PStr
                            (if best_of sols < 90 then ''specialist_team''
                             else ''automated_system'')),
                         (''priority'', PStr (if best_of sols < 70 then ''high'' else ''medium''))]),
                     (''decision_confidence'', PFloat (8106479329266893 / 9007199254740992)),
                     (''threshold_used'', PInt 90)],
                clk)"
proof -
  from best_score_of_scored [OF assms(2)]
  obtain b where b: "best_score_of (PList sols) = Inr b" "is_number b" "num_of b = best_of sols"
      "max_or_zero (map score_of sols) = Inr b"
    by blast
  have c90: "py_cmp Lt b (PInt 90) = Inr (best_of sols < 90)"
    using py_cmp_Lt_number [OF b(2), of 90] b(3) by simp
  have c70: "py_cmp Lt b (PInt 70) = Inr (best_of sols < 70)"
    using py_cmp_Lt_number [OF b(2), of 70] b(3) by simp
  have "handle_escalation_decision rt context clk =
               (Inr [(''escalation_decision'', PDict
                        [(''escalation_required'', PBool (best_of sols < 90)),
                         (''reason'', PStr
                            (if best_of sols < 90
                             then ''Best solution score ('' @ py_str rt b
                                    @ '') below threshold (90)''
                             else ''Sufficient solution found'')),
                         (''assigned_to'', PStr
                            (if best_of sols < 90 then ''specialist_team''
                             else ''automated_system'')),
                         (''priority'', PStr (if best_of sols < 70 then ''high'' else ''medium''))]),
                     (''decision_confidence'', PFloat (8106479329266893 / 9007199254740992)),
                     (''threshold_used'', PInt 90)],
                clk)"
    by (simp add: handle_escalation_decision_def assms(1) b(1) c90 c70 del: py_cmp.simps)
  with b show ?thesis by blast
qed

lemma add_solutions_scored:
  assumes "list_all scored sols"
  shows "\<exists>m'. for_each (\<lambda>solution m.
                 (case py_get solution ''score'' (PInt 0) of
                    Inl e \<Rightarrow> (Inl e, m)
                  | Inr score \<Rightarrow> add_solution solution score m)) sols m = (Inr (), m')
            \<and> solutions (state m') = solutions (state m) @ sols
            \<and> solution_scores (state m') = solution_scores (state m) @ map score_of sols"
  using assms
proof (induction sols arbitrary: m)
  case Nil
  show ?case by simp
next
  case (Cons s ss)
  from Cons.prems have s: "scored s" and ss: "list_all scored ss" by simp_all
  obtain i where i: "py_get s ''id'' (PStr ''unknown'') = Inr i"
    using scored_py_get(2) [OF s] by blast
  obtain m1 where a: "add_solution s (score_of s) m = (Inr (), m1)"
    by (simp add: add_solution_def Let_def i)
  have f1: "solutions (state m1) = solutions (state m) @ [s]"
      "solution_scores (state m1) = solution_scores (state m) @ [score_of s]"
    using a by (auto simp: add_solution_def Let_def i log_event_state)
  from Cons.IH [OF ss, of m1] obtain m' where
    m': "for_each (\<lambda>solution m.
                 (case py_get solution ''score'' (PInt 0) of
                    Inl e \<Rightarrow> (Inl e, m)
                  | Inr score \<Rightarrow> add_solution solution score m)) ss m1 = (Inr (), m')"
      "solutions (state m') = solutions (state m1) @ ss"
      "solution_scores (state m') = solution_scores (state m1) @ map score_of ss"
    by blast
  show ?case
    using m' f1 by (simp add: scored_py_get(1) [OF s] a)
qed

lemma find_DECIDE:
  "find (\<lambda>s. name s = ''DECIDE'') STAGES =
     Some \<lparr>name = ''DECIDE'', mode = NON_DETERMINISTIC,
      abilities =
        [Ability ''solution_evaluation'' COMMON ''Score potential solutions 1-100'',
         Ability ''escalation_decision'' ATLAS ''Assign to human agent if score <90'',
         Ability ''update_payload'' COMMON ''Record decision outcomes''],
      description = ''Evaluate solutions and make escalation decisions''\<rparr>"
  by (simp add: STAGES_def)

lemma build_context_solutions:
  "dict_get (build_context s) ''solutions'' d = PList (solutions s)"
  by (simp add: build_context_def dict_get_def)

lemma update_stage_decision_fields:
  "decision_fields (state (update_stage n sm)) = decision_fields (state sm)"
  "build_context (state (update_stage n sm)) = build_context (state sm)"
  by (simp_all add: update_stage_def Let_def datetime_now_def log_event_state
      decision_fields_def build_context_def)

lemma decide_update_state:
  "state (snd (decide_update rt self cfg results ctx sm)) = state sm"
proof (cases "find (\<lambda>a. Ability.name a = ''update_payload'') (abilities cfg)")
  case None
  then show ?thesis by (simp add: decide_update_def ok_def)
next
  case (Some a)
  show ?thesis
    unfolding decide_update_def Some option.case
    apply (rule and_then_keeps [where g = "\<lambda>s. s"])
     apply (simp add: execute_ability_state)
    apply (simp add: ok_def)
    done
qed

lemma decide_evaluate_scored:
  assumes hs: "handlers rt COMMON ''solution_evaluation'' = Some h"
    and ev: "fst (h ctx (clock sm)) = Inr eval_result"
    and sols: "dict_get eval_result ''solutions'' (PList []) = PList sols"
    and scored: "list_all scored sols"
    and ab: "find (\<lambda>a. Ability.name a = ''solution_evaluation'') (abilities cfg)
              = Some (Ability ''solution_evaluation'' COMMON d)"
  shows "\<exists>m2. decide_evaluate rt connected_executor cfg ctx sm
                = (Inr ([eval_result], build_context (state m2)), m2)
            \<and> solutions (state m2) = solutions (state sm) @ sols
            \<and> solution_scores (state m2) = solution_scores (state sm) @ map score_of sols"
proof -
  let ?a = "Ability ''solution_evaluation'' COMMON d"
  obtain clk1 where h: "h ctx (clock sm) = (Inr eval_result, clk1)"
    using ev by (cases "h ctx (clock sm)") simp
  have ex: "execute_ability rt (get_client connected_executor (server ?a)) ?a ctx sm
              = (Inr eval_result, sm\<lparr>clock := clk1\<rparr>)"
    by (simp add: Ability_def connected_clients execute_ability_def client_handler_def hs
        run_handler_def h)
  from add_solutions_scored [OF scored, of "sm\<lparr>clock := clk1\<rparr>"]
  obtain m2 where m2: "for_each (\<lambda>solution m.
                 (case py_get solution ''score'' (PInt 0) of
                    Inl e \<Rightarrow> (Inl e, m)
                  | Inr score \<Rightarrow> add_solution solution score m)) sols (sm\<lparr>clock := clk1\<rparr>)
               = (Inr (), m2)"
      "solutions (state m2) = solutions (state (sm\<lparr>clock := clk1\<rparr>)) @ sols"
      "solution_scores (state m2)
         = solution_scores (state (sm\<lparr>clock := clk1\<rparr>)) @ map score_of sols"
    by blast
  have "decide_evaluate rt connected_executor cfg ctx sm
          = (Inr ([eval_result], build_context (state m2)), m2)"
    unfolding decide_evaluate_def ab option.case
    by (simp add: and_then_def ex sols for_in_def m2(1) get_current_state_def)
  then show ?thesis using m2(2,3) by auto
qed

lemma decide_escalate_scored:
  assumes scored: "list_all scored (solutions (state m2))"
    and ab: "find (\<lambda>a. Ability.name a = ''escalation_decision'') (abilities cfg)
              = Some (Ability ''escalation_decision'' ATLAS d)"
  shows "\<exists>r reason m3.
            decide_escalate rt connected_executor cfg results (build_context (state m2)) m2
                = (Inr (results @ [r]), m3)
            \<and> payload_field r ''escalation_decision'' ''escalation_required''
                = Some (PBool (best_of (solutions (state m2)) < 90))
            \<and> payload_field r ''escalation_decision'' ''priority''
                = Some (PStr (if best_of (solutions (state m2)) < 70 then ''high'' else ''medium''))
            \<and> decision_fields (state m3) =
                (solutions (state m2), solution_scores (state m2),
                 PBool (best_of (solutions (state m2)) < 90), reason)"
proof -
  let ?a = "Ability ''escalation_decision'' ATLAS d"
  let ?ctx = "build_context (state m2)"
  let ?best = "best_of (solutions (state m2))"
  from handle_escalation_decision_scored
    [OF build_context_solutions [of "state m2" "PList []"] scored, of rt "clock m2"]
  obtain b where r: "handle_escalation_decision rt ?ctx (clock m2) =
               (Inr [(''escalation_decision'', PDict
                        [(''escalation_required'', PBool (?best < 90)),
                         (''reason'', PStr
                            (if ?best < 90
                             then ''Best solution score ('' @ py_str rt b
                                    @ '') below threshold (90)''
                             else ''Sufficient solution found'')),
                         (''assigned_to'', PStr
                            (if ?best < 90 then ''specialist_team''
                             else ''automated_system'')),
                         (''priority'', PStr (if ?best < 70 then ''high'' else ''medium''))]),
                     (''decision_confidence'', PFloat (8106479329266893 / 9007199254740992)),
                     (''threshold_used'', PInt 90)],
                clock m2)"
    by blast
  let ?r = "[(''escalation_decision'', PDict
                        [(''escalation_required'', PBool (?best < 90)),
                         (''reason'', PStr
                            (if ?best < 90
                             then ''Best solution score ('' @ py_str rt b
                                    @ '') below threshold (90)''
                             else ''Sufficient solution found'')),
                         (''assigned_to'', PStr
                            (if ?best < 90 then ''specialist_team''
                             else ''automated_system'')),
                         (''priority'', PStr (if ?best < 70 then ''high'' else ''medium''))]),
                     (''decision_confidence'', PFloat (8106479329266893 / 9007199254740992)),
                     (''threshold_used'', PInt 90)]"
  let ?reason = "PStr (if ?best < 90
                             then ''Best solution score ('' @ py_str rt b
                                    @ '') below threshold (90)''
                             else ''Sufficient solution found'')"
  have ex: "execute_ability rt (get_client connected_executor (server ?a)) ?a ?ctx m2
              = (Inr ?r, m2)"
    by (simp add: Ability_def connected_clients execute_ability_def client_handler_def
        run_handler_def r)
  have d: "decide_escalate rt connected_executor cfg results ?ctx m2
             = (Inr (results @ [?r]), set_escalation (PBool (?best < 90)) ?reason m2)"
    unfolding decide_escalate_def ab option.case
    by (simp add: and_then_def ex dict_get_def Let_def)
  have p: "payload_field ?r ''escalation_decision'' ''escalation_required''
                = Some (PBool (?best < 90))"
      "payload_field ?r ''escalation_decision'' ''priority''
                = Some (PStr (if ?best < 70 then ''high'' else ''medium''))"
    by (simp_all add: payload_field_def)
  have f: "decision_fields (state (set_escalation (PBool (?best < 90)) ?reason m2)) =
                (solutions (state m2), solution_scores (state m2), PBool (?best < 90), ?reason)"
    by (simp add: set_escalation_def log_event_state decision_fields_def)
  show ?thesis using d p f by blast
qed

lemma decide_update_result:
  assumes "decide_update rt self cfg results ctx sm = (Inr rs, m)"
    and "find (\<lambda>a. Ability.name a = ''update_payload'') (abilities cfg) = Some a"
  shows "\<exists>u. rs = results @ [u]"
proof -
  obtain r1 m1 where e: "execute_ability rt (get_client self (server a)) a ctx sm = (r1, m1)"
    by (cases "execute_ability rt (get_client self (server a)) a ctx sm")
  show ?thesis
    using assms e by (cases r1) (auto simp: decide_update_def and_then_def ok_def)
qed

lemma later_stage_found:
  "n \<in> set [''UPDATE'', ''CREATE'', ''DO'', ''COMPLETE'']
   \<Longrightarrow> \<exists>cfg. find (\<lambda>s. name s = n) STAGES = Some cfg \<and> mode cfg \<noteq> NON_DETERMINISTIC"
  by (auto simp: STAGES_def)

lemma run_node_decision_fields:
  assumes "n \<in> set [''UPDATE'', ''CREATE'', ''DO'', ''COMPLETE'']"
  shows "decision_fields (state (snd (run_node rt n sm))) = decision_fields (state sm)"
proof -
  obtain cfg where c: "find (\<lambda>s. name s = n) STAGES = Some cfg"
      and m: "mode cfg \<noteq> NON_DETERMINISTIC"
    using later_stage_found [OF assms] by blast
  show ?thesis
    using loop_stages_keep [of rt connected_executor cfg "update_stage n sm"] m
    by (cases "mode cfg")
       (simp_all add: run_node_connected execute_stage_def c Let_def kept_def
          update_stage_decision_fields)
qed

lemma after_decision_decision_fields:
  "decision_fields (state (after_decision rt sm)) = decision_fields (state sm)"
  by (simp add: after_decision_def update_node_def create_node_def do_node_def
      complete_node_def run_node_decision_fields)

lemma export_decisions:
  assumes "max_or_zero (solution_scores (state sm)) = Inr b"
  shows "\<exists>p. fst (export_final_payload sm) = Inr p
           \<and> payload_field p ''decisions'' ''escalation_required''
               = Some (escalation_required (state sm))
           \<and> payload_field p ''decisions'' ''best_solution_score'' = Some b"
  using assms by (simp add: export_final_payload_def Let_def payload_field_def)

lemma decide_stage_scored:
  assumes hs: "handlers rt COMMON ''solution_evaluation'' = Some h"
    and ev: "fst (h (build_context (state sm)) (clock sm)) = Inr eval_result"
    and sols: "dict_get eval_result ''solutions'' (PList []) = PList sols"
    and scored: "list_all scored (solutions (state sm) @ sols)"
    and cfg: "cfg = \<lparr>name = ''DECIDE'', mode = NON_DETERMINISTIC,
      abilities =
        [Ability ''solution_evaluation'' COMMON ''Score potential solutions 1-100'',
         Ability ''escalation_decision'' ATLAS ''Assign to human agent if score <90'',
         Ability ''update_payload'' COMMON ''Record decision outcomes''],
      description = ''Evaluate solutions and make escalation decisions''\<rparr>"
  shows "\<exists>r reason.
           decision_fields (state (snd (execute_non_deterministic_stage rt connected_executor cfg sm)))
             = (solutions (state sm) @ sols, solution_scores (state sm) @ map score_of sols,
                PBool (best_of (solutions (state sm) @ sols) < 90), reason)
         \<and> payload_field r ''escalation_decision'' ''escalation_required''
             = Some (PBool (best_of (solutions (state sm) @ sols) < 90))
         \<and> payload_field r ''escalation_decision'' ''priority''
             = Some (PStr (if best_of (solutions (state sm) @ sols) < 70
                           then ''high'' else ''medium''))
         \<and> ((\<exists>e. fst (execute_non_deterministic_stage rt connected_executor cfg sm) = Inl e)
            \<or> (\<exists>u. fst (execute_non_deterministic_stage rt connected_executor cfg sm)
                     = Inr (stage_result cfg [eval_result, r, u])))"
proof -
  let ?all = "solutions (state sm) @ sols"
  have sc: "list_all scored sols" using scored by simp
  have a1: "find (\<lambda>a. Ability.name a = ''solution_evaluation'') (abilities cfg)
              = Some (Ability ''solution_evaluation'' COMMON ''Score potential solutions 1-100'')"
    and a2: "find (\<lambda>a. Ability.name a = ''escalation_decision'') (abilities cfg)
              = Some (Ability ''escalation_decision'' ATLAS ''Assign to human agent if score <90'')"
    and a3: "find (\<lambda>a. Ability.name a = ''update_payload'') (abilities cfg)
              = Some (Ability ''update_payload'' COMMON ''Record decision outcomes'')"
    and nm: "name cfg = ''DECIDE''"
    by (simp_all add: cfg Ability_def)
  from decide_evaluate_scored [OF hs ev sols sc a1]
  obtain m2 where e1: "decide_evaluate rt connected_executor cfg (build_context (state sm)) sm
                = (Inr ([eval_result], build_context (state m2)), m2)"
      and s2: "solutions (state m2) = ?all"
      and c2: "solution_scores (state m2) = solution_scores (state sm) @ map score_of sols"
    by blast
  have sc2: "list_all scored (solutions (state m2))" using scored s2 by simp
  from decide_escalate_scored [OF sc2 a2, of rt "[eval_result]"]
  obtain r reason m3 where
      e2: "decide_escalate rt connected_executor cfg [eval_result] (build_context (state m2)) m2
                = (Inr [eval_result, r], m3)"
      and p1: "payload_field r ''escalation_decision'' ''escalation_required''
                = Some (PBool (best_of (solutions (state m2)) < 90))"
      and p2: "payload_field r ''escalation_decision'' ''priority''
                = Some (PStr (if best_of (solutions (state m2)) < 70 then ''high'' else ''medium''))"
      and f3: "decision_fields (state m3) =
                (solutions (state m2), solution_scores (state m2),
                 PBool (best_of (solutions (state m2)) < 90), reason)"
    by auto
  obtain ru m4 where e3: "decide_update rt connected_executor cfg [eval_result, r]
                            (build_context (state m2)) m3 = (ru, m4)"
    by (cases "decide_update rt connected_executor cfg [eval_result, r]
                 (build_context (state m2)) m3")
  have s4: "state m4 = state m3"
    using decide_update_state [of rt connected_executor cfg "[eval_result, r]"
        "build_context (state m2)" m3] e3 by simp
  have run: "execute_non_deterministic_stage rt connected_executor cfg sm =
          (case ru of Inl e \<Rightarrow> (Inl e, m4) | Inr rs \<Rightarrow> (Inr (stage_result cfg rs), m4))"
    by (simp add: execute_non_deterministic_stage_def nm and_then_def get_current_state_def
        e1 e2 e3 ok_def split: sum.splits)
  have f: "decision_fields (state (snd (execute_non_deterministic_stage rt connected_executor cfg sm)))
             = (?all, solution_scores (state sm) @ map score_of sols,
                PBool (best_of ?all < 90), reason)"
    using run s4 f3 s2 c2 by (cases ru) simp_all
  have res: "(\<exists>e. fst (execute_non_deterministic_stage rt connected_executor cfg sm) = Inl e)
            \<or> (\<exists>u. fst (execute_non_deterministic_stage rt connected_executor cfg sm)
                     = Inr (stage_result cfg [eval_result, r, u]))"
  proof (cases ru)
    case (Inl e)
    then show ?thesis using run by simp
  next
    case (Inr rs)
    from decide_update_result [OF e3 [unfolded Inr] a3]
    obtain u where "rs = [eval_result, r] @ [u]" by blast
    then show ?thesis using run Inr by auto
  qed
  show ?thesis
    apply (rule exI [of _ r])
    apply (rule exI [of _ reason])
    using f p1 p2 res unfolding s2 apply simp
    done
qed

end
